theory Spec2Isabelle
  imports Main "HOL-Library.Word"
begin

section \<open>The IKEv2 public-key authenticator (pubkey\_authenticator.c)\<close>

text \<open>
  A shallow embedding of \<^verbatim>\<open>src/libcharon/sa/ikev2/authenticators/pubkey_authenticator.c\<close>.
  Every function of that file is a HOL function of the same name. A C function that
  returns a \<^verbatim>\<open>status_t\<close> and fills an output buffer returns \<open>status_t + chunk_t\<close> here
  (\<open>Inl\<close> the status of a failure, \<open>Inr\<close> the buffer of a \<^verbatim>\<open>SUCCESS\<close>); a C function
  that returns \<^verbatim>\<open>bool\<close> and fills output parameters returns an \<open>option\<close>. Loops over
  enumerators are recursive functions over the list the enumerator yields.

  The objects the file works on but does not implement (the IKE\_SA, the keymat, keys,
  the credential manager, the ASN.1 and OID helpers of libstrongswan) are records of
  functions that every operation takes as arguments.
\<close>

subsection \<open>Data model\<close>

type_synonym chunk_t = "8 word list"
type_synonym identification_t = string

datatype status_t = SUCCESS | FAILED | INVALID_ARG | NOT_FOUND

datatype key_type_t =
  KEY_ANY | KEY_RSA | KEY_ECDSA | KEY_DSA | KEY_ED25519 | KEY_ED448 | KEY_BLISS

text \<open>The last constructor stands for every tag value without a name.\<close>

datatype auth_method_t =
  AUTH_NONE | AUTH_RSA | AUTH_PSK | AUTH_DSS
  | AUTH_ECDSA_256 | AUTH_ECDSA_384 | AUTH_ECDSA_521
  | AUTH_GSPM | AUTH_NULL | AUTH_DS | AUTH_UNASSIGNED "8 word"

datatype hash_algorithm_t =
  HASH_UNKNOWN | HASH_MD5 | HASH_SHA1 | HASH_SHA224 | HASH_SHA256 | HASH_SHA384
  | HASH_SHA512 | HASH_IDENTITY

datatype signature_scheme_t =
  SIGN_UNKNOWN
  | SIGN_RSA_EMSA_PKCS1_NULL | SIGN_RSA_EMSA_PKCS1_MD5 | SIGN_RSA_EMSA_PKCS1_SHA1
  | SIGN_RSA_EMSA_PKCS1_SHA2_224 | SIGN_RSA_EMSA_PKCS1_SHA2_256
  | SIGN_RSA_EMSA_PKCS1_SHA2_384 | SIGN_RSA_EMSA_PKCS1_SHA2_512
  | SIGN_RSA_EMSA_PSS
  | SIGN_ECDSA_WITH_SHA1_DER | SIGN_ECDSA_WITH_SHA256_DER
  | SIGN_ECDSA_WITH_SHA384_DER | SIGN_ECDSA_WITH_SHA512_DER
  | SIGN_ECDSA_WITH_NULL | SIGN_ECDSA_256 | SIGN_ECDSA_384 | SIGN_ECDSA_521
  | SIGN_ED25519 | SIGN_ED448

record rsa_pss_params_t =
  hash :: hash_algorithm_t
  mgf1_hash :: hash_algorithm_t
  salt_len :: int

text \<open>
  \<^verbatim>\<open>signature_params_t\<close>: the scheme and its optional parameter block (a null pointer
  is \<open>None\<close>); only RSASSA-PSS has one.
\<close>

record signature_params_t =
  scheme :: signature_scheme_t
  params :: "rsa_pss_params_t option"

datatype auth_class_t =
  AUTH_CLASS_ANY | AUTH_CLASS_PUBKEY | AUTH_CLASS_PSK | AUTH_CLASS_EAP | AUTH_CLASS_XAUTH

text \<open>
  An \<^verbatim>\<open>auth_cfg_t\<close> is the sequence of (rule, value) entries its enumerator yields.
  Each rule used by the file is a constructor carrying the rule's value; every other
  rule is \<open>AUTH_RULE_OTHER\<close>.
\<close>

datatype auth_entry =
  AUTH_RULE_IKE_SIGNATURE_SCHEME signature_params_t
  | AUTH_RULE_AUTH_CLASS auth_class_t
  | AUTH_RULE_CERT_VALIDATION_SUSPENDED bool
  | AUTH_RULE_OTHER nat

type_synonym auth_cfg_t = "auth_entry list"

text \<open>
  The calls \<^verbatim>\<open>process\<close> makes on the session's auth configuration:
  \<^verbatim>\<open>auth->merge(auth, other, FALSE)\<close> and \<^verbatim>\<open>auth->add(auth, rule, value)\<close>. The effect
  of \<^verbatim>\<open>process\<close> on that object is the sequence of these calls, in order.
\<close>

datatype auth_call = Merge auth_cfg_t | Add auth_entry

record private_key_t =
  get_type :: key_type_t
  get_keysize :: int
  sign :: "signature_scheme_t \<Rightarrow> rsa_pss_params_t option \<Rightarrow> chunk_t \<Rightarrow> chunk_t option"

record public_key_t =
  verify :: "signature_scheme_t \<Rightarrow> rsa_pss_params_t option \<Rightarrow> chunk_t \<Rightarrow> chunk_t \<Rightarrow> bool"

record auth_payload_t =
  auth_method :: auth_method_t
  data :: chunk_t

datatype payload_t = PLV2_AUTH auth_payload_t | PLV2_OTHER nat

type_synonym message_t = "payload_t list"

datatype ike_extension_t = EXT_SIGNATURE_AUTH | EXT_OTHER nat

datatype ike_condition_t = COND_ONLINE_VALIDATION_SUSPENDED | COND_OTHER nat

text \<open>
  \<^verbatim>\<open>keymat_v2_t\<close>: \<^verbatim>\<open>get_auth_octets\<close> takes (verify, ike\_sa\_init, nonce, id, reserved,
  schemes) and returns, when it succeeds, the octets and the scheme array as it left
  it (it may change the array).
\<close>

record keymat_v2_t =
  hash_algorithm_supported :: "hash_algorithm_t \<Rightarrow> bool"
  get_auth_octets ::
    "bool \<Rightarrow> chunk_t \<Rightarrow> chunk_t \<Rightarrow> identification_t \<Rightarrow> chunk_t \<Rightarrow> signature_params_t list
      \<Rightarrow> (chunk_t \<times> signature_params_t list) option"

record ike_sa_t =
  get_my_id :: identification_t
  get_other_id :: identification_t
  get_auth_cfg :: "bool \<Rightarrow> auth_cfg_t"
  supports_extension :: "ike_extension_t \<Rightarrow> bool"
  has_condition :: "ike_condition_t \<Rightarrow> bool"
  get_keymat :: keymat_v2_t

record private_pubkey_authenticator_t =
  ike_sa :: ike_sa_t
  nonce :: chunk_t
  ike_sa_init :: chunk_t
  reserved :: chunk_t

text \<open>
  The functions of libstrongswan and of the credential manager that the file calls and
  that are not part of it, and the \<^verbatim>\<open>rsa_pss\<close> setting read through
  \<^verbatim>\<open>lib->settings\<close>. An OID is the \<^verbatim>\<open>int\<close> index the OID table gives it.
  \<^item> \<open>asn1_parse_algorithmIdentifier\<close> returns the OID and the new value of its
    \<^verbatim>\<open>parameters\<close> output (which starts as the empty chunk);
  \<^item> \<open>rsa_pss_params_build\<close> takes the \<^verbatim>\<open>params->params\<close> pointer as it is;
  \<^item> \<open>signature_schemes_for_key\<close> and \<open>create_public_enumerator\<close> return what their
    enumerators yield, in order;
  \<^item> \<open>malloc k\<close> is the address of the \<open>k\<close>-th object allocated while a scheme array is
    filled, and \<open>enum_value\<close> the number behind an enumerator of
    \<^verbatim>\<open>signature_scheme_t\<close>.
\<close>

record lib_t =
  rsa_pss :: bool
  get_private :: "key_type_t \<Rightarrow> identification_t \<Rightarrow> auth_cfg_t \<Rightarrow> private_key_t option"
  create_public_enumerator ::
    "key_type_t \<Rightarrow> identification_t \<Rightarrow> auth_cfg_t \<Rightarrow> bool \<Rightarrow> (public_key_t \<times> auth_cfg_t) list"
  key_type_from_signature_scheme :: "signature_scheme_t \<Rightarrow> key_type_t"
  hasher_from_signature_scheme ::
    "signature_scheme_t \<Rightarrow> rsa_pss_params_t option \<Rightarrow> hash_algorithm_t"
  signature_schemes_for_key :: "key_type_t \<Rightarrow> int \<Rightarrow> signature_params_t list"
  signature_scheme_from_oid :: "int \<Rightarrow> signature_scheme_t"
  signature_scheme_to_oid :: "signature_scheme_t \<Rightarrow> int"
  asn1_parse_algorithmIdentifier :: "chunk_t \<Rightarrow> int \<times> chunk_t"
  asn1_algorithmIdentifier :: "int \<Rightarrow> chunk_t"
  asn1_algorithmIdentifier_params :: "int \<Rightarrow> chunk_t \<Rightarrow> chunk_t"
  rsa_pss_params_parse :: "chunk_t \<Rightarrow> rsa_pss_params_t option"
  rsa_pss_params_build :: "rsa_pss_params_t option \<Rightarrow> chunk_t option"
  malloc :: "nat \<Rightarrow> nat"
  enum_value :: "signature_scheme_t \<Rightarrow> nat"

definition OID_UNKNOWN :: int where
  "OID_UNKNOWN = -1"

text \<open>
  Modelled from the spec: \<^verbatim>\<open>chunk_skip\<close> of libstrongswan's chunk.h is not among the
  sources. The codec "advances the input past the declared length regardless of whether
  the parameters were fully consumed": skipping more bytes than the chunk holds leaves
  the empty chunk.
\<close>

definition chunk_skip :: "chunk_t \<Rightarrow> nat \<Rightarrow> chunk_t" where
  "chunk_skip chunk bytes = (if length chunk > bytes then drop bytes chunk else [])"

subsection \<open>The classic IKEv2 signature (sign\_classic)\<close>

text \<open>
  The \<^verbatim>\<open>switch\<close> at the head of \<^verbatim>\<open>sign_classic\<close>: the scheme and the value written to
  \<^verbatim>\<open>*auth_method\<close>, or \<open>None\<close> where the function returns \<^verbatim>\<open>FAILED\<close> from the switch.
\<close>

definition sign_classic_scheme ::
  "private_key_t \<Rightarrow> (signature_scheme_t \<times> auth_method_t) option" where
  "sign_classic_scheme private =
     (case get_type private of
        KEY_RSA \<Rightarrow> Some (SIGN_RSA_EMSA_PKCS1_SHA1, AUTH_RSA)
      | KEY_ECDSA \<Rightarrow>
          (if get_keysize private = 256 then Some (SIGN_ECDSA_256, AUTH_ECDSA_256)
           else if get_keysize private = 384 then Some (SIGN_ECDSA_384, AUTH_ECDSA_384)
           else if get_keysize private = 521 then Some (SIGN_ECDSA_521, AUTH_ECDSA_521)
           else None)
      | _ \<Rightarrow> None)"

text \<open>
  \<^verbatim>\<open>get_auth_octets_scheme\<close>: the scheme goes to the keymat in an array of one element;
  the call succeeds when the keymat does and the array still has a first element, which
  is the scheme handed back.
\<close>

definition get_auth_octets_scheme ::
  "private_pubkey_authenticator_t \<Rightarrow> bool \<Rightarrow> identification_t \<Rightarrow> signature_params_t
    \<Rightarrow> (chunk_t \<times> signature_params_t) option" where
  "get_auth_octets_scheme this vrfy idn sch =
     (case get_auth_octets (get_keymat (ike_sa this)) vrfy (ike_sa_init this) (nonce this)
             idn (reserved this) [sch] of
        None \<Rightarrow> None
      | Some (octets, schemes) \<Rightarrow>
          (case schemes of [] \<Rightarrow> None | s # _ \<Rightarrow> Some (octets, s)))"

text \<open>
  \<^verbatim>\<open>sign_classic\<close> returns its status with the signature, and the value of
  \<^verbatim>\<open>*auth_method\<close> when it returns (the caller's value where the switch fails).
\<close>

definition sign_classic ::
  "private_pubkey_authenticator_t \<Rightarrow> auth_cfg_t \<Rightarrow> private_key_t \<Rightarrow> identification_t
    \<Rightarrow> auth_method_t \<Rightarrow> (status_t + chunk_t) \<times> auth_method_t" where
  "sign_classic this auth private idn method0 =
     (case sign_classic_scheme private of
        None \<Rightarrow> (Inl FAILED, method0)
      | Some (sch, method) \<Rightarrow>
          (case get_auth_octets_scheme this False idn \<lparr>scheme = sch, params = None\<rparr> of
             None \<Rightarrow> (Inl FAILED, method)
           | Some (octets, p) \<Rightarrow>
               (case sign private (scheme p) None octets of
                  None \<Rightarrow> (Inl FAILED, method)
                | Some auth_data \<Rightarrow> (Inr auth_data, method))))"

subsection \<open>The algorithm identifier of RFC 7427 (parse and build)\<close>

text \<open>
  \<^verbatim>\<open>parse_signature_auth_data\<close> returns, when it succeeds, the rest of the authentication
  data, the key type and the parameters. The length byte is read only from a chunk that
  is not empty; the algorithm identifier is parsed from all that follows the length
  byte, and the length byte is used for nothing but the final \<^verbatim>\<open>chunk_skip\<close>.
\<close>

definition parse_signature_auth_data ::
  "lib_t \<Rightarrow> chunk_t \<Rightarrow> (chunk_t \<times> key_type_t \<times> signature_params_t) option" where
  "parse_signature_auth_data lib auth_data =
     (case auth_data of
        [] \<Rightarrow> None
      | len # _ \<Rightarrow>
          (let auth_data1 = chunk_skip auth_data 1;
               (oid, parameters) = asn1_parse_algorithmIdentifier lib auth_data1;
               sch = signature_scheme_from_oid lib oid
           in if sch = SIGN_UNKNOWN then None
              else if sch = SIGN_RSA_EMSA_PSS then
                (case rsa_pss_params_parse lib parameters of
                   None \<Rightarrow> None
                 | Some pss \<Rightarrow>
                     Some (chunk_skip auth_data1 (unat len),
                           key_type_from_signature_scheme lib sch,
                           \<lparr>scheme = sch, params = Some pss\<rparr>))
              else
                Some (chunk_skip auth_data1 (unat len),
                      key_type_from_signature_scheme lib sch,
                      \<lparr>scheme = sch, params = None\<rparr>)))"

text \<open>
  \<^verbatim>\<open>build_signature_auth_data\<close> puts the length byte and the algorithm identifier in
  front of the signature in \<^verbatim>\<open>*auth_data\<close>. The length is stored in a \<^verbatim>\<open>uint8_t\<close>.
\<close>

definition build_signature_auth_data ::
  "lib_t \<Rightarrow> chunk_t \<Rightarrow> signature_params_t \<Rightarrow> chunk_t option" where
  "build_signature_auth_data lib auth_data p =
     (let oid = signature_scheme_to_oid lib (scheme p)
      in if oid = OID_UNKNOWN then None
         else
           (case (if scheme p = SIGN_RSA_EMSA_PSS then rsa_pss_params_build lib (params p)
                  else Some []) of
              None \<Rightarrow> None
            | Some parameters \<Rightarrow>
                (let dat = (if length parameters \<noteq> 0
                            then asn1_algorithmIdentifier_params lib oid parameters
                            else asn1_algorithmIdentifier lib oid);
                     len = (of_nat (length dat) :: 8 word)
                 in Some (len # dat @ auth_data))))"

subsection \<open>Selecting signature schemes (select\_signature\_schemes)\<close>

text \<open>
  \<^verbatim>\<open>selected\<close> is created by \<^verbatim>\<open>array_create(0, 0)\<close>: an array of pointers. Each slot holds
  the address of a \<^verbatim>\<open>signature_params_t\<close> allocated by \<^verbatim>\<open>signature_params_clone\<close> or
  \<^verbatim>\<open>INIT\<close>; the objects are not changed once they are in the array, so a pointer is its
  address together with the object it points to.
\<close>

datatype params_ptr = Ptr (address: nat) (deref: signature_params_t)

text \<open>\<^verbatim>\<open>array_insert(selected, ARRAY_TAIL, p)\<close> for a newly allocated copy \<open>p\<close> of \<open>config\<close>.\<close>

definition insert_new :: "lib_t \<Rightarrow> params_ptr list \<Rightarrow> signature_params_t \<Rightarrow> params_ptr list" where
  "insert_new lib selected config = selected @ [Ptr (malloc lib (length selected)) config]"

text \<open>The loop over the entries of the auth configuration (lines 154 to 168).\<close>

fun select_configured ::
  "lib_t \<Rightarrow> keymat_v2_t \<Rightarrow> key_type_t \<Rightarrow> auth_cfg_t \<Rightarrow> bool \<times> params_ptr list
    \<Rightarrow> bool \<times> params_ptr list" where
  "select_configured lib keymat key_type [] st = st"
| "select_configured lib keymat key_type (AUTH_RULE_IKE_SIGNATURE_SCHEME config # auth)
     (have_config, selected) =
     select_configured lib keymat key_type auth
       (True,
        if key_type = key_type_from_signature_scheme lib (scheme config) \<and>
           hash_algorithm_supported keymat
             (hasher_from_signature_scheme lib (scheme config) (params config))
        then insert_new lib selected config else selected)"
| "select_configured lib keymat key_type (_ # auth) st =
     select_configured lib keymat key_type auth st"

text \<open>The loop over the schemes appropriate for the key (lines 177 to 192).\<close>

fun select_for_key ::
  "lib_t \<Rightarrow> keymat_v2_t \<Rightarrow> signature_params_t list \<Rightarrow> params_ptr list \<Rightarrow> params_ptr list" where
  "select_for_key lib keymat [] selected = selected"
| "select_for_key lib keymat (config # rest) selected =
     (if scheme config = SIGN_RSA_EMSA_PSS \<and> \<not> rsa_pss lib
      then select_for_key lib keymat rest selected
      else select_for_key lib keymat rest
             (if hash_algorithm_supported keymat
                   (hasher_from_signature_scheme lib (scheme config) (params config))
              then insert_new lib selected config else selected))"

text \<open>
  The search for a fallback scheme in \<^verbatim>\<open>selected\<close> (lines 209 to 217).
  \<^verbatim>\<open>array_get(selected, j, &contained)\<close> copies slot \<open>j\<close> of the array, which is a pointer,
  over the variable \<^verbatim>\<open>contained\<close>, which is declared a \<^verbatim>\<open>signature_scheme_t\<close>; the test
  \<^verbatim>\<open>scheme == contained\<close> then compares the enumerator with what the variable holds:
  the low 32 bits of the address (the first four bytes of the copy land in the variable
  on a little-endian machine; it is the whole pointer when pointers have four bytes).
  The scheme of the object behind the pointer, \<^verbatim>\<open>contained->scheme\<close>, is not read.
  Where a pointer has eight bytes the copy also writes four bytes behind the variable;
  what that does to its neighbours on the stack is not part of the model.
\<close>

definition array_get_contained :: "params_ptr \<Rightarrow> nat" where
  "array_get_contained p = address p mod 2 ^ 32"

fun scheme_found :: "lib_t \<Rightarrow> signature_scheme_t \<Rightarrow> params_ptr list \<Rightarrow> bool" where
  "scheme_found lib sch [] = False"
| "scheme_found lib sch (p # ps) =
     (if enum_value lib sch = array_get_contained p then True else scheme_found lib sch ps)"

text \<open>The loop over the two fallback schemes of an RSA key (lines 205 to 227).\<close>

fun select_fallback ::
  "lib_t \<Rightarrow> keymat_v2_t \<Rightarrow> signature_scheme_t list \<Rightarrow> params_ptr list \<Rightarrow> params_ptr list" where
  "select_fallback lib keymat [] selected = selected"
| "select_fallback lib keymat (sch # schemes) selected =
     select_fallback lib keymat schemes
       (if \<not> scheme_found lib sch selected \<and>
           hash_algorithm_supported keymat (hasher_from_signature_scheme lib sch None)
        then insert_new lib selected \<lparr>scheme = sch, params = None\<rparr> else selected)"

definition select_signature_schemes ::
  "lib_t \<Rightarrow> keymat_v2_t \<Rightarrow> auth_cfg_t \<Rightarrow> private_key_t \<Rightarrow> params_ptr list" where
  "select_signature_schemes lib keymat auth private =
     (let key_type = get_type private;
          (have_config, selected) = select_configured lib keymat key_type auth (False, [])
      in if \<not> have_config then
           (let selected1 = select_for_key lib keymat
                  (signature_schemes_for_key lib key_type (get_keysize private)) selected
            in if key_type = KEY_RSA
               then select_fallback lib keymat
                      [SIGN_RSA_EMSA_PKCS1_SHA2_384, SIGN_RSA_EMSA_PKCS1_SHA2_256] selected1
               else selected1)
         else selected)"

subsection \<open>Signing with RFC 7427 signature authentication (sign\_signature\_auth)\<close>

text \<open>The loop over the schemes the keymat returned (lines 269 to 285).\<close>

fun sign_schemes ::
  "lib_t \<Rightarrow> private_key_t \<Rightarrow> chunk_t \<Rightarrow> signature_params_t list \<Rightarrow> status_t + chunk_t" where
  "sign_schemes lib private octets [] = Inl FAILED"
| "sign_schemes lib private octets (p # rest) =
     (case sign private (scheme p) (params p) octets of
        None \<Rightarrow> sign_schemes lib private octets rest
      | Some auth_data \<Rightarrow>
          (case build_signature_auth_data lib auth_data p of
             None \<Rightarrow> sign_schemes lib private octets rest
           | Some auth_data' \<Rightarrow> Inr auth_data'))"

definition sign_signature_auth ::
  "lib_t \<Rightarrow> private_pubkey_authenticator_t \<Rightarrow> auth_cfg_t \<Rightarrow> private_key_t
    \<Rightarrow> identification_t \<Rightarrow> status_t + chunk_t" where
  "sign_signature_auth lib this auth private idn =
     (let keymat = get_keymat (ike_sa this);
          schemes = select_signature_schemes lib keymat auth private
      in if length schemes = 0 then Inl FAILED
         else
           (case get_auth_octets keymat False (ike_sa_init this) (nonce this) idn
                   (reserved this) (map deref schemes) of
              None \<Rightarrow> Inl FAILED
            | Some (octets, schemes') \<Rightarrow> sign_schemes lib private octets schemes'))"

subsection \<open>The two operations (build and process)\<close>

text \<open>
  \<^verbatim>\<open>build\<close> returns its status and the message as it leaves it:
  \<^verbatim>\<open>message->add_payload\<close> puts the payload at the end.
\<close>

definition build ::
  "lib_t \<Rightarrow> private_pubkey_authenticator_t \<Rightarrow> message_t \<Rightarrow> status_t \<times> message_t" where
  "build lib this message =
     (let idn = get_my_id (ike_sa this);
          auth = get_auth_cfg (ike_sa this) True
      in case get_private lib KEY_ANY idn auth of
           None \<Rightarrow> (NOT_FOUND, message)
         | Some private \<Rightarrow>
             (let (r, method) =
                    (if supports_extension (ike_sa this) EXT_SIGNATURE_AUTH
                     then (sign_signature_auth lib this auth private idn, AUTH_DS)
                     else sign_classic this auth private idn AUTH_NONE)
              in case r of
                   Inl status \<Rightarrow> (status, message)
                 | Inr auth_data \<Rightarrow>
                     (SUCCESS,
                      message @ [PLV2_AUTH \<lparr>auth_method = method, data = auth_data\<rparr>])))"

text \<open>
  Modelled from the spec: \<^verbatim>\<open>message->get_payload\<close> is not among the sources. "Extract the
  AuthPayload; fails with FAILED if absent": the first payload of type
  \<^verbatim>\<open>PLV2_AUTH\<close>, if there is one.
\<close>

fun get_payload_auth :: "message_t \<Rightarrow> auth_payload_t option" where
  "get_payload_auth [] = None"
| "get_payload_auth (PLV2_AUTH p # _) = Some p"
| "get_payload_auth (_ # rest) = get_payload_auth rest"

text \<open>
  The \<^verbatim>\<open>switch\<close> over the authentication method (lines 459 to 486): the key type, the
  parameters and the rest of the authentication data, or the \<^verbatim>\<open>reason\<close> that is logged
  before \<^verbatim>\<open>process\<close> returns \<^verbatim>\<open>INVALID_ARG\<close>.
\<close>

definition process_auth_method ::
  "lib_t \<Rightarrow> auth_method_t \<Rightarrow> chunk_t
    \<Rightarrow> string + (key_type_t \<times> signature_params_t \<times> chunk_t)" where
  "process_auth_method lib method auth_data =
     (case method of
        AUTH_RSA \<Rightarrow>
          Inr (KEY_RSA, \<lparr>scheme = SIGN_RSA_EMSA_PKCS1_SHA1, params = None\<rparr>, auth_data)
      | AUTH_ECDSA_256 \<Rightarrow>
          Inr (KEY_ECDSA, \<lparr>scheme = SIGN_ECDSA_256, params = None\<rparr>, auth_data)
      | AUTH_ECDSA_384 \<Rightarrow>
          Inr (KEY_ECDSA, \<lparr>scheme = SIGN_ECDSA_384, params = None\<rparr>, auth_data)
      | AUTH_ECDSA_521 \<Rightarrow>
          Inr (KEY_ECDSA, \<lparr>scheme = SIGN_ECDSA_521, params = None\<rparr>, auth_data)
      | AUTH_DS \<Rightarrow>
          (case parse_signature_auth_data lib auth_data of
             Some (auth_data', key_type, p) \<Rightarrow> Inr (key_type, p, auth_data')
           | None \<Rightarrow> Inl ''payload invalid'')
      | _ \<Rightarrow> Inl ''unsupported'')"

text \<open>
  The loop over the trusted public keys (lines 497 to 521), started with the value
  \<^verbatim>\<open>status\<close> has before it. It returns the status and the calls made on \<^verbatim>\<open>auth\<close>.
\<close>

fun verify_candidates ::
  "signature_params_t \<Rightarrow> chunk_t \<Rightarrow> chunk_t \<Rightarrow> bool \<Rightarrow> (public_key_t \<times> auth_cfg_t) list
    \<Rightarrow> status_t \<Rightarrow> status_t \<times> auth_call list" where
  "verify_candidates p octets auth_data online [] status = (status, [])"
| "verify_candidates p octets auth_data online ((public, current_auth) # rest) status =
     (if verify public (scheme p) (params p) octets auth_data
      then (SUCCESS,
            [Merge current_auth,
             Add (AUTH_RULE_AUTH_CLASS AUTH_CLASS_PUBKEY),
             Add (AUTH_RULE_IKE_SIGNATURE_SCHEME p)]
            @ (if \<not> online then [Add (AUTH_RULE_CERT_VALIDATION_SUSPENDED True)] else []))
      else verify_candidates p octets auth_data online rest FAILED)"

definition process ::
  "lib_t \<Rightarrow> private_pubkey_authenticator_t \<Rightarrow> message_t \<Rightarrow> status_t \<times> auth_call list" where
  "process lib this message =
     (case get_payload_auth message of
        None \<Rightarrow> (FAILED, [])
      | Some auth_payload \<Rightarrow>
          (case process_auth_method lib (auth_method auth_payload) (data auth_payload) of
             Inl reason \<Rightarrow> (INVALID_ARG, [])
           | Inr (key_type, p, auth_data) \<Rightarrow>
               (let idn = get_other_id (ike_sa this)
                in case get_auth_octets_scheme this True idn p of
                     None \<Rightarrow> (FAILED, [])
                   | Some (octets, p') \<Rightarrow>
                       (let auth = get_auth_cfg (ike_sa this) False;
                            online = \<not> has_condition (ike_sa this)
                                         COND_ONLINE_VALIDATION_SUSPENDED
                        in verify_candidates p' octets auth_data online
                             (create_public_enumerator lib key_type idn auth online)
                             NOT_FOUND))))"

subsection \<open>The two constructors\<close>

text \<open>
  The public interface: the builder's \<^verbatim>\<open>process\<close> and the verifier's \<^verbatim>\<open>build\<close> are
  \<^verbatim>\<open>return_failed\<close>, which returns \<^verbatim>\<open>FAILED\<close> and touches nothing.
\<close>

record authenticator_t =
  authenticator_build :: "message_t \<Rightarrow> status_t \<times> message_t"
  authenticator_process :: "message_t \<Rightarrow> status_t \<times> auth_call list"
  is_mutual :: bool

definition pubkey_authenticator_create_builder ::
  "lib_t \<Rightarrow> ike_sa_t \<Rightarrow> chunk_t \<Rightarrow> chunk_t \<Rightarrow> chunk_t \<Rightarrow> authenticator_t" where
  "pubkey_authenticator_create_builder lib sa received_nonce sent_init rsvd =
     (let this = \<lparr>ike_sa = sa, nonce = received_nonce, ike_sa_init = sent_init,
                  reserved = take 3 rsvd\<rparr>
      in \<lparr>authenticator_build = build lib this,
          authenticator_process = (\<lambda>message. (FAILED, [])),
          is_mutual = False\<rparr>)"

definition pubkey_authenticator_create_verifier ::
  "lib_t \<Rightarrow> ike_sa_t \<Rightarrow> chunk_t \<Rightarrow> chunk_t \<Rightarrow> chunk_t \<Rightarrow> authenticator_t" where
  "pubkey_authenticator_create_verifier lib sa sent_nonce received_init rsvd =
     (let this = \<lparr>ike_sa = sa, nonce = sent_nonce, ike_sa_init = received_init,
                  reserved = take 3 rsvd\<rparr>
      in \<lparr>authenticator_build = (\<lambda>message. (FAILED, message)),
          authenticator_process = process lib this,
          is_mutual = False\<rparr>)"

subsection \<open>Notions of the specification\<close>

text \<open>
  The explicit signature-scheme constraints of an auth configuration, in the order they
  are configured.
\<close>

fun configured_schemes :: "auth_cfg_t \<Rightarrow> signature_params_t list" where
  "configured_schemes [] = []"
| "configured_schemes (AUTH_RULE_IKE_SIGNATURE_SCHEME config # auth) =
     config # configured_schemes auth"
| "configured_schemes (_ # auth) = configured_schemes auth"

text \<open>A scheme whose hash the peer supports.\<close>

definition peer_supported :: "lib_t \<Rightarrow> keymat_v2_t \<Rightarrow> signature_params_t \<Rightarrow> bool" where
  "peer_supported lib keymat config =
     hash_algorithm_supported keymat
       (hasher_from_signature_scheme lib (scheme config) (params config))"

text \<open>
  A configured scheme whose key type is the private key's and whose hash the peer
  supports.
\<close>

definition scheme_usable ::
  "lib_t \<Rightarrow> keymat_v2_t \<Rightarrow> key_type_t \<Rightarrow> signature_params_t \<Rightarrow> bool" where
  "scheme_usable lib keymat key_type config =
     (key_type = key_type_from_signature_scheme lib (scheme config) \<and>
      peer_supported lib keymat config)"

text \<open>
  The schemes of the standard table for a key that pass the \<^verbatim>\<open>rsa_pss\<close> policy and
  whose hash the peer supports.
\<close>

definition table_schemes ::
  "lib_t \<Rightarrow> keymat_v2_t \<Rightarrow> private_key_t \<Rightarrow> signature_params_t list" where
  "table_schemes lib keymat private =
     filter (\<lambda>config. (scheme config \<noteq> SIGN_RSA_EMSA_PSS \<or> rsa_pss lib) \<and>
                      peer_supported lib keymat config)
       (signature_schemes_for_key lib (get_type private) (get_keysize private))"

text \<open>The scheme tags of a scheme array.\<close>

definition scheme_tags :: "params_ptr list \<Rightarrow> signature_scheme_t list" where
  "scheme_tags selected = map (\<lambda>p. scheme (deref p)) selected"

text \<open>
  A candidate scheme that gives no authentication data: the key does not sign with it,
  or the signature's algorithm identifier cannot be built.
\<close>

definition candidate_fails ::
  "lib_t \<Rightarrow> private_key_t \<Rightarrow> chunk_t \<Rightarrow> signature_params_t \<Rightarrow> bool" where
  "candidate_fails lib private octets p =
     (case sign private (scheme p) (params p) octets of
        None \<Rightarrow> True
      | Some auth_data \<Rightarrow> build_signature_auth_data lib auth_data p = None)"

subsection \<open>A concrete configuration\<close>

text \<open>
  One instance of every record above, in the shape of libstrongswan's own tables, on
  which the theorems below are exercised: the scheme table with its key-size limits,
  DER algorithm identifiers with short-form lengths, three RSASSA-PSS parameter sets,
  a peer that supports SHA-256, SHA-384 and SHA-512, and a signature primitive that
  is a tagged copy of the octets.
\<close>

fun ex_key_type_from_signature_scheme :: "signature_scheme_t \<Rightarrow> key_type_t" where
  "ex_key_type_from_signature_scheme SIGN_UNKNOWN = KEY_ANY"
| "ex_key_type_from_signature_scheme SIGN_ECDSA_WITH_SHA1_DER = KEY_ECDSA"
| "ex_key_type_from_signature_scheme SIGN_ECDSA_WITH_SHA256_DER = KEY_ECDSA"
| "ex_key_type_from_signature_scheme SIGN_ECDSA_WITH_SHA384_DER = KEY_ECDSA"
| "ex_key_type_from_signature_scheme SIGN_ECDSA_WITH_SHA512_DER = KEY_ECDSA"
| "ex_key_type_from_signature_scheme SIGN_ECDSA_WITH_NULL = KEY_ECDSA"
| "ex_key_type_from_signature_scheme SIGN_ECDSA_256 = KEY_ECDSA"
| "ex_key_type_from_signature_scheme SIGN_ECDSA_384 = KEY_ECDSA"
| "ex_key_type_from_signature_scheme SIGN_ECDSA_521 = KEY_ECDSA"
| "ex_key_type_from_signature_scheme SIGN_ED25519 = KEY_ED25519"
| "ex_key_type_from_signature_scheme SIGN_ED448 = KEY_ED448"
| "ex_key_type_from_signature_scheme _ = KEY_RSA"

fun ex_hasher_from_signature_scheme ::
  "signature_scheme_t \<Rightarrow> rsa_pss_params_t option \<Rightarrow> hash_algorithm_t" where
  "ex_hasher_from_signature_scheme SIGN_RSA_EMSA_PKCS1_MD5 _ = HASH_MD5"
| "ex_hasher_from_signature_scheme SIGN_RSA_EMSA_PKCS1_SHA1 _ = HASH_SHA1"
| "ex_hasher_from_signature_scheme SIGN_RSA_EMSA_PKCS1_SHA2_224 _ = HASH_SHA224"
| "ex_hasher_from_signature_scheme SIGN_RSA_EMSA_PKCS1_SHA2_256 _ = HASH_SHA256"
| "ex_hasher_from_signature_scheme SIGN_RSA_EMSA_PKCS1_SHA2_384 _ = HASH_SHA384"
| "ex_hasher_from_signature_scheme SIGN_RSA_EMSA_PKCS1_SHA2_512 _ = HASH_SHA512"
| "ex_hasher_from_signature_scheme SIGN_RSA_EMSA_PSS (Some pss) = hash pss"
| "ex_hasher_from_signature_scheme SIGN_ECDSA_WITH_SHA1_DER _ = HASH_SHA1"
| "ex_hasher_from_signature_scheme SIGN_ECDSA_WITH_SHA256_DER _ = HASH_SHA256"
| "ex_hasher_from_signature_scheme SIGN_ECDSA_WITH_SHA384_DER _ = HASH_SHA384"
| "ex_hasher_from_signature_scheme SIGN_ECDSA_WITH_SHA512_DER _ = HASH_SHA512"
| "ex_hasher_from_signature_scheme SIGN_ECDSA_256 _ = HASH_SHA256"
| "ex_hasher_from_signature_scheme SIGN_ECDSA_384 _ = HASH_SHA384"
| "ex_hasher_from_signature_scheme SIGN_ECDSA_521 _ = HASH_SHA512"
| "ex_hasher_from_signature_scheme SIGN_ED25519 _ = HASH_IDENTITY"
| "ex_hasher_from_signature_scheme SIGN_ED448 _ = HASH_IDENTITY"
| "ex_hasher_from_signature_scheme _ _ = HASH_UNKNOWN"

definition ex_pss :: "hash_algorithm_t \<Rightarrow> int \<Rightarrow> signature_params_t" where
  "ex_pss h n =
     \<lparr>scheme = SIGN_RSA_EMSA_PSS, params = Some \<lparr>hash = h, mgf1_hash = h, salt_len = n\<rparr>\<rparr>"

definition ex_plain :: "signature_scheme_t \<Rightarrow> signature_params_t" where
  "ex_plain s = \<lparr>scheme = s, params = None\<rparr>"

text \<open>The scheme table: key type, largest key size the entry is for (0: any), scheme.\<close>

definition ex_scheme_map :: "(key_type_t \<times> int \<times> signature_params_t) list" where
  "ex_scheme_map =
     [(KEY_RSA, 3072, ex_pss HASH_SHA256 32),
      (KEY_RSA, 7680, ex_pss HASH_SHA384 48),
      (KEY_RSA, 0, ex_pss HASH_SHA512 64),
      (KEY_RSA, 3072, ex_plain SIGN_RSA_EMSA_PKCS1_SHA2_256),
      (KEY_RSA, 7680, ex_plain SIGN_RSA_EMSA_PKCS1_SHA2_384),
      (KEY_RSA, 0, ex_plain SIGN_RSA_EMSA_PKCS1_SHA2_512),
      (KEY_ECDSA, 256, ex_plain SIGN_ECDSA_WITH_SHA256_DER),
      (KEY_ECDSA, 384, ex_plain SIGN_ECDSA_WITH_SHA384_DER),
      (KEY_ECDSA, 0, ex_plain SIGN_ECDSA_WITH_SHA512_DER),
      (KEY_ED25519, 0, ex_plain SIGN_ED25519),
      (KEY_ED448, 0, ex_plain SIGN_ED448)]"

definition ex_signature_schemes_for_key :: "key_type_t \<Rightarrow> int \<Rightarrow> signature_params_t list" where
  "ex_signature_schemes_for_key t sz =
     map (\<lambda>(_, _, p). p)
       (filter (\<lambda>(t', mx, _). t = t' \<and> (sz \<le> mx \<or> mx = 0)) ex_scheme_map)"

fun ex_signature_scheme_to_oid :: "signature_scheme_t \<Rightarrow> int" where
  "ex_signature_scheme_to_oid SIGN_RSA_EMSA_PKCS1_SHA1 = 1"
| "ex_signature_scheme_to_oid SIGN_RSA_EMSA_PKCS1_SHA2_256 = 2"
| "ex_signature_scheme_to_oid SIGN_RSA_EMSA_PKCS1_SHA2_384 = 3"
| "ex_signature_scheme_to_oid SIGN_RSA_EMSA_PKCS1_SHA2_512 = 4"
| "ex_signature_scheme_to_oid SIGN_RSA_EMSA_PSS = 5"
| "ex_signature_scheme_to_oid SIGN_ECDSA_WITH_SHA256_DER = 6"
| "ex_signature_scheme_to_oid SIGN_ECDSA_WITH_SHA384_DER = 7"
| "ex_signature_scheme_to_oid SIGN_ECDSA_WITH_SHA512_DER = 8"
| "ex_signature_scheme_to_oid _ = OID_UNKNOWN"

definition ex_signature_scheme_from_oid :: "int \<Rightarrow> signature_scheme_t" where
  "ex_signature_scheme_from_oid oid =
     (if oid = 1 then SIGN_RSA_EMSA_PKCS1_SHA1
      else if oid = 2 then SIGN_RSA_EMSA_PKCS1_SHA2_256
      else if oid = 3 then SIGN_RSA_EMSA_PKCS1_SHA2_384
      else if oid = 4 then SIGN_RSA_EMSA_PKCS1_SHA2_512
      else if oid = 5 then SIGN_RSA_EMSA_PSS
      else if oid = 6 then SIGN_ECDSA_WITH_SHA256_DER
      else if oid = 7 then SIGN_ECDSA_WITH_SHA384_DER
      else if oid = 8 then SIGN_ECDSA_WITH_SHA512_DER
      else SIGN_UNKNOWN)"

text \<open>The content bytes of the object identifiers, and the table read backwards.\<close>

definition ex_oid_bytes :: "int \<Rightarrow> chunk_t" where
  "ex_oid_bytes oid =
     (if oid = 1 then [0x2a, 0x86, 0x48, 0x86, 0xf7, 0x0d, 0x01, 0x01, 0x05]
      else if oid = 2 then [0x2a, 0x86, 0x48, 0x86, 0xf7, 0x0d, 0x01, 0x01, 0x0b]
      else if oid = 3 then [0x2a, 0x86, 0x48, 0x86, 0xf7, 0x0d, 0x01, 0x01, 0x0c]
      else if oid = 4 then [0x2a, 0x86, 0x48, 0x86, 0xf7, 0x0d, 0x01, 0x01, 0x0d]
      else if oid = 5 then [0x2a, 0x86, 0x48, 0x86, 0xf7, 0x0d, 0x01, 0x01, 0x0a]
      else if oid = 6 then [0x2a, 0x86, 0x48, 0xce, 0x3d, 0x04, 0x03, 0x02]
      else if oid = 7 then [0x2a, 0x86, 0x48, 0xce, 0x3d, 0x04, 0x03, 0x03]
      else if oid = 8 then [0x2a, 0x86, 0x48, 0xce, 0x3d, 0x04, 0x03, 0x04]
      else [])"

fun ex_known_oid :: "int list \<Rightarrow> chunk_t \<Rightarrow> int" where
  "ex_known_oid [] object = OID_UNKNOWN"
| "ex_known_oid (oid # oids) object =
     (if object = ex_oid_bytes oid then oid else ex_known_oid oids object)"

definition ex_asn1_algorithmIdentifier_params :: "int \<Rightarrow> chunk_t \<Rightarrow> chunk_t" where
  "ex_asn1_algorithmIdentifier_params oid parameters =
     (let object = ex_oid_bytes oid
      in 0x30 # of_nat (2 + length object + length parameters)
           # 0x06 # of_nat (length object) # object @ parameters)"

definition ex_asn1_algorithmIdentifier :: "int \<Rightarrow> chunk_t" where
  "ex_asn1_algorithmIdentifier oid =
     ex_asn1_algorithmIdentifier_params oid
       (if oid = 6 \<or> oid = 7 \<or> oid = 8 then [] else [0x05, 0x00])"

definition ex_asn1_parse_algorithmIdentifier :: "chunk_t \<Rightarrow> int \<times> chunk_t" where
  "ex_asn1_parse_algorithmIdentifier blob =
     (case blob of
        t # l # t' # n # rest \<Rightarrow>
          (if t = 0x30 \<and> t' = 0x06 \<and> unat l < 128 \<and> unat n + 2 \<le> unat l
                \<and> unat l \<le> 2 + length rest
           then (ex_known_oid [1, 2, 3, 4, 5, 6, 7, 8] (take (unat n) rest),
                 take (unat l - 2 - unat n) (drop (unat n) rest))
           else (OID_UNKNOWN, []))
      | _ \<Rightarrow> (OID_UNKNOWN, []))"

text \<open>
  RSASSA-PSS parameters with the same SHA-2 hash for the message and for MGF1, and the
  hash's size as salt length.
\<close>

definition ex_pss_der :: "8 word \<Rightarrow> 8 word \<Rightarrow> chunk_t" where
  "ex_pss_der h n =
     [0x30, 0x34,
      0xa0, 0x0f, 0x30, 0x0d, 0x06, 0x09,
        0x60, 0x86, 0x48, 0x01, 0x65, 0x03, 0x04, 0x02, h, 0x05, 0x00,
      0xa1, 0x1c, 0x30, 0x1a, 0x06, 0x09,
        0x2a, 0x86, 0x48, 0x86, 0xf7, 0x0d, 0x01, 0x01, 0x08,
        0x30, 0x0d, 0x06, 0x09,
        0x60, 0x86, 0x48, 0x01, 0x65, 0x03, 0x04, 0x02, h, 0x05, 0x00,
      0xa2, 0x03, 0x02, 0x01, n]"

definition ex_rsa_pss_params_build :: "rsa_pss_params_t option \<Rightarrow> chunk_t option" where
  "ex_rsa_pss_params_build p =
     (case p of
        None \<Rightarrow> None
      | Some pss \<Rightarrow>
          (if pss = \<lparr>hash = HASH_SHA256, mgf1_hash = HASH_SHA256, salt_len = 32\<rparr>
           then Some (ex_pss_der 1 32)
           else if pss = \<lparr>hash = HASH_SHA384, mgf1_hash = HASH_SHA384, salt_len = 48\<rparr>
           then Some (ex_pss_der 2 48)
           else if pss = \<lparr>hash = HASH_SHA512, mgf1_hash = HASH_SHA512, salt_len = 64\<rparr>
           then Some (ex_pss_der 3 64)
           else None))"

definition ex_rsa_pss_params_parse :: "chunk_t \<Rightarrow> rsa_pss_params_t option" where
  "ex_rsa_pss_params_parse blob =
     (if blob = ex_pss_der 1 32
      then Some \<lparr>hash = HASH_SHA256, mgf1_hash = HASH_SHA256, salt_len = 32\<rparr>
      else if blob = ex_pss_der 2 48
      then Some \<lparr>hash = HASH_SHA384, mgf1_hash = HASH_SHA384, salt_len = 48\<rparr>
      else if blob = ex_pss_der 3 64
      then Some \<lparr>hash = HASH_SHA512, mgf1_hash = HASH_SHA512, salt_len = 64\<rparr>
      else None)"

text \<open>The enumerators of \<^verbatim>\<open>signature_scheme_t\<close> numbered in the order they are declared.\<close>

fun ex_enum_value :: "signature_scheme_t \<Rightarrow> nat" where
  "ex_enum_value SIGN_UNKNOWN = 0"
| "ex_enum_value SIGN_RSA_EMSA_PKCS1_NULL = 1"
| "ex_enum_value SIGN_RSA_EMSA_PKCS1_MD5 = 2"
| "ex_enum_value SIGN_RSA_EMSA_PKCS1_SHA1 = 3"
| "ex_enum_value SIGN_RSA_EMSA_PKCS1_SHA2_224 = 4"
| "ex_enum_value SIGN_RSA_EMSA_PKCS1_SHA2_256 = 5"
| "ex_enum_value SIGN_RSA_EMSA_PKCS1_SHA2_384 = 6"
| "ex_enum_value SIGN_RSA_EMSA_PKCS1_SHA2_512 = 7"
| "ex_enum_value SIGN_RSA_EMSA_PSS = 8"
| "ex_enum_value SIGN_ECDSA_WITH_SHA1_DER = 9"
| "ex_enum_value SIGN_ECDSA_WITH_SHA256_DER = 10"
| "ex_enum_value SIGN_ECDSA_WITH_SHA384_DER = 11"
| "ex_enum_value SIGN_ECDSA_WITH_SHA512_DER = 12"
| "ex_enum_value SIGN_ECDSA_WITH_NULL = 13"
| "ex_enum_value SIGN_ECDSA_256 = 14"
| "ex_enum_value SIGN_ECDSA_384 = 15"
| "ex_enum_value SIGN_ECDSA_521 = 16"
| "ex_enum_value SIGN_ED25519 = 17"
| "ex_enum_value SIGN_ED448 = 18"

text \<open>Heap addresses: 32 bytes apart, from \<^verbatim>\<open>0x55555575b2a0\<close> on.\<close>

definition ex_malloc :: "nat \<Rightarrow> nat" where
  "ex_malloc k = 0x55555575b2a0 + 32 * k"

text \<open>
  The signature primitive: the signature of the octets is the octets behind the byte
  \<^verbatim>\<open>0x53\<close>, for every scheme of the key's type that is not RSASSA-PSS with SHA-512.
\<close>

definition ex_sign ::
  "key_type_t \<Rightarrow> signature_scheme_t \<Rightarrow> rsa_pss_params_t option \<Rightarrow> chunk_t \<Rightarrow> chunk_t option" where
  "ex_sign t s p octets =
     (if ex_key_type_from_signature_scheme s = t \<and>
         \<not> (s = SIGN_RSA_EMSA_PSS \<and> ex_hasher_from_signature_scheme s p = HASH_SHA512)
      then Some (0x53 # octets) else None)"

definition ex_private :: "key_type_t \<Rightarrow> int \<Rightarrow> private_key_t" where
  "ex_private t sz = \<lparr>get_type = t, get_keysize = sz, sign = ex_sign t\<rparr>"

definition ex_public :: "key_type_t \<Rightarrow> public_key_t" where
  "ex_public t = \<lparr>verify = (\<lambda>s p octets sig. ex_sign t s p octets = Some sig)\<rparr>"

definition ex_keymat :: keymat_v2_t where
  "ex_keymat =
     \<lparr>hash_algorithm_supported =
        (\<lambda>h. h = HASH_SHA256 \<or> h = HASH_SHA384 \<or> h = HASH_SHA512),
      get_auth_octets =
        (\<lambda>vrfy init nce idn rsvd schemes. Some (init @ nce @ rsvd, schemes))\<rparr>"

text \<open>
  The session: the local side is \<open>''moon''\<close> with the auth configuration \<open>auth\<close>, the
  peer is \<open>''sun''\<close>; \<open>ds\<close> says whether signature authentication was negotiated and
  \<open>suspended\<close> whether online validation is suspended.
\<close>

definition ex_ike_sa :: "auth_cfg_t \<Rightarrow> bool \<Rightarrow> bool \<Rightarrow> ike_sa_t" where
  "ex_ike_sa auth ds suspended =
     \<lparr>get_my_id = ''moon'', get_other_id = ''sun'',
      get_auth_cfg = (\<lambda>local. if local then auth else []),
      supports_extension = (\<lambda>e. e = EXT_SIGNATURE_AUTH \<and> ds),
      has_condition = (\<lambda>c. c = COND_ONLINE_VALIDATION_SUSPENDED \<and> suspended),
      get_keymat = ex_keymat\<rparr>"

definition ex_this :: "auth_cfg_t \<Rightarrow> bool \<Rightarrow> bool \<Rightarrow> private_pubkey_authenticator_t" where
  "ex_this auth ds suspended =
     \<lparr>ike_sa = ex_ike_sa auth ds suspended, nonce = [0x4e, 0x01], ike_sa_init = [0x49, 0x02],
      reserved = [0, 0, 0]\<rparr>"

text \<open>
  The library: \<open>pss\<close> is the \<^verbatim>\<open>rsa_pss\<close> setting, \<open>private\<close> the private key the credential
  manager has for \<open>''moon''\<close> and \<open>publics\<close> the trusted public keys it has for \<open>''sun''\<close>
  (whatever the key type asked for).
\<close>

definition ex_lib ::
  "bool \<Rightarrow> private_key_t option \<Rightarrow> (public_key_t \<times> auth_cfg_t) list \<Rightarrow> lib_t" where
  "ex_lib pss private publics =
     \<lparr>rsa_pss = pss,
      get_private = (\<lambda>t idn auth. if idn = ''moon'' then private else None),
      create_public_enumerator = (\<lambda>t idn auth online. if idn = ''sun'' then publics else []),
      key_type_from_signature_scheme = ex_key_type_from_signature_scheme,
      hasher_from_signature_scheme = ex_hasher_from_signature_scheme,
      signature_schemes_for_key = ex_signature_schemes_for_key,
      signature_scheme_from_oid = ex_signature_scheme_from_oid,
      signature_scheme_to_oid = ex_signature_scheme_to_oid,
      asn1_parse_algorithmIdentifier = ex_asn1_parse_algorithmIdentifier,
      asn1_algorithmIdentifier = ex_asn1_algorithmIdentifier,
      asn1_algorithmIdentifier_params = ex_asn1_algorithmIdentifier_params,
      rsa_pss_params_parse = ex_rsa_pss_params_parse,
      rsa_pss_params_build = ex_rsa_pss_params_build,
      malloc = ex_malloc,
      enum_value = ex_enum_value\<rparr>"

section \<open>Properties\<close>

subsection \<open>The concrete configuration, field by field\<close>

lemma ex_lib_sel:
  "rsa_pss (ex_lib pss private publics) = pss"
  "get_private (ex_lib pss private publics) t idn auth = (if idn = ''moon'' then private else None)"
  "create_public_enumerator (ex_lib pss private publics) t idn auth online =
     (if idn = ''sun'' then publics else [])"
  "key_type_from_signature_scheme (ex_lib pss private publics) = ex_key_type_from_signature_scheme"
  "hasher_from_signature_scheme (ex_lib pss private publics) = ex_hasher_from_signature_scheme"
  "signature_schemes_for_key (ex_lib pss private publics) = ex_signature_schemes_for_key"
  "signature_scheme_from_oid (ex_lib pss private publics) = ex_signature_scheme_from_oid"
  "signature_scheme_to_oid (ex_lib pss private publics) = ex_signature_scheme_to_oid"
  "asn1_parse_algorithmIdentifier (ex_lib pss private publics) = ex_asn1_parse_algorithmIdentifier"
  "asn1_algorithmIdentifier (ex_lib pss private publics) = ex_asn1_algorithmIdentifier"
  "asn1_algorithmIdentifier_params (ex_lib pss private publics) = ex_asn1_algorithmIdentifier_params"
  "rsa_pss_params_parse (ex_lib pss private publics) = ex_rsa_pss_params_parse"
  "rsa_pss_params_build (ex_lib pss private publics) = ex_rsa_pss_params_build"
  "malloc (ex_lib pss private publics) = ex_malloc"
  "enum_value (ex_lib pss private publics) = ex_enum_value"
  by (simp_all add: ex_lib_def)

lemma ex_keymat_sel:
  "hash_algorithm_supported ex_keymat h = (h = HASH_SHA256 \<or> h = HASH_SHA384 \<or> h = HASH_SHA512)"
  "get_auth_octets ex_keymat vrfy init nce idn rsvd schemes = Some (init @ nce @ rsvd, schemes)"
  by (simp_all add: ex_keymat_def)

lemma ex_this_sel:
  "get_keymat (ike_sa (ex_this auth ds suspended)) = ex_keymat"
  "get_my_id (ike_sa (ex_this auth ds suspended)) = ''moon''"
  "get_other_id (ike_sa (ex_this auth ds suspended)) = ''sun''"
  "get_auth_cfg (ike_sa (ex_this auth ds suspended)) local = (if local then auth else [])"
  "supports_extension (ike_sa (ex_this auth ds suspended)) e = (e = EXT_SIGNATURE_AUTH \<and> ds)"
  "has_condition (ike_sa (ex_this auth ds suspended)) c =
     (c = COND_ONLINE_VALIDATION_SUSPENDED \<and> suspended)"
  "nonce (ex_this auth ds suspended) = [0x4e, 0x01]"
  "ike_sa_init (ex_this auth ds suspended) = [0x49, 0x02]"
  "reserved (ex_this auth ds suspended) = [0, 0, 0]"
  by (simp_all add: ex_this_def ex_ike_sa_def)

lemma ex_private_sel:
  "get_type (ex_private t sz) = t"
  "get_keysize (ex_private t sz) = sz"
  "sign (ex_private t sz) = ex_sign t"
  by (simp_all add: ex_private_def)

lemma ex_table_rsa_2048:
  "ex_signature_schemes_for_key KEY_RSA 2048 =
     [ex_pss HASH_SHA256 32, ex_pss HASH_SHA384 48, ex_pss HASH_SHA512 64,
      ex_plain SIGN_RSA_EMSA_PKCS1_SHA2_256, ex_plain SIGN_RSA_EMSA_PKCS1_SHA2_384,
      ex_plain SIGN_RSA_EMSA_PKCS1_SHA2_512]"
  by (simp add: ex_signature_schemes_for_key_def ex_scheme_map_def)

subsection \<open>The loops of select\_signature\_schemes\<close>

lemma select_configured_fst:
  "fst (select_configured lib keymat kt auth (hc, sel)) = (hc \<or> configured_schemes auth \<noteq> [])"
  by (induction lib keymat kt auth "(hc, sel)" arbitrary: hc sel rule: select_configured.induct)
     simp_all

lemma select_configured_deref:
  "map deref (snd (select_configured lib keymat kt auth (hc, sel))) =
     map deref sel @ filter (scheme_usable lib keymat kt) (configured_schemes auth)"
  by (induction lib keymat kt auth "(hc, sel)" arbitrary: hc sel rule: select_configured.induct)
     (simp_all add: scheme_usable_def peer_supported_def insert_new_def)

lemma select_for_key_deref:
  "map deref (select_for_key lib keymat tbl sel) =
     map deref sel @
     filter (\<lambda>config. (scheme config \<noteq> SIGN_RSA_EMSA_PSS \<or> rsa_pss lib) \<and>
                      peer_supported lib keymat config) tbl"
  by (induction tbl arbitrary: sel) (auto simp: peer_supported_def insert_new_def)

lemma select_fallback_deref:
  "\<exists>added. map deref (select_fallback lib keymat schemes sel) =
       map deref sel @ map (\<lambda>s. \<lparr>scheme = s, params = None\<rparr>) added
     \<and> set added \<subseteq> set schemes"
proof (induction schemes arbitrary: sel)
  case Nil
  show ?case by (rule exI [of _ "[]"]) simp
next
  case (Cons sch schemes)
  let ?sel' = "if \<not> scheme_found lib sch sel \<and>
           hash_algorithm_supported keymat (hasher_from_signature_scheme lib sch None)
        then insert_new lib sel \<lparr>scheme = sch, params = None\<rparr> else sel"
  from Cons.IH [of ?sel'] obtain added where
    a: "map deref (select_fallback lib keymat schemes ?sel') =
        map deref ?sel' @ map (\<lambda>s. \<lparr>scheme = s, params = None\<rparr>) added"
    and b: "set added \<subseteq> set schemes" by blast
  show ?case
  proof (cases "\<not> scheme_found lib sch sel \<and>
           hash_algorithm_supported keymat (hasher_from_signature_scheme lib sch None)")
    case True
    with a b show ?thesis
      by (intro exI [of _ "sch # added"]) (auto simp: insert_new_def)
  next
    case False
    with a b show ?thesis
      by (intro exI [of _ "added"]) auto
  qed
qed

lemma select_no_config:
  assumes "configured_schemes auth = []"
  shows "\<exists>added. map deref (select_signature_schemes lib keymat auth private) =
           table_schemes lib keymat private @ map (\<lambda>s. \<lparr>scheme = s, params = None\<rparr>) added
         \<and> set added \<subseteq> {SIGN_RSA_EMSA_PKCS1_SHA2_384, SIGN_RSA_EMSA_PKCS1_SHA2_256}
         \<and> (get_type private \<noteq> KEY_RSA \<longrightarrow> added = [])"
proof -
  let ?kt = "get_type private"
  obtain hc sel where r: "select_configured lib keymat ?kt auth (False, []) = (hc, sel)"
    by (cases "select_configured lib keymat ?kt auth (False, [])")
  from select_configured_fst [of lib keymat ?kt auth False "[]"] r assms
  have hc: "\<not> hc" by simp
  from select_configured_deref [of lib keymat ?kt auth False "[]"] r assms
  have sel: "sel = []" by simp
  let ?sel1 = "select_for_key lib keymat
      (signature_schemes_for_key lib ?kt (get_keysize private)) []"
  have tbl: "map deref ?sel1 = table_schemes lib keymat private"
    by (simp add: select_for_key_deref table_schemes_def)
  have eq: "select_signature_schemes lib keymat auth private =
      (if ?kt = KEY_RSA
       then select_fallback lib keymat
              [SIGN_RSA_EMSA_PKCS1_SHA2_384, SIGN_RSA_EMSA_PKCS1_SHA2_256] ?sel1
       else ?sel1)"
    using r hc sel
    by (simp add: select_signature_schemes_def Let_def del: select_fallback.simps)
  show ?thesis
  proof (cases "?kt = KEY_RSA")
    case True
    from select_fallback_deref
      [of lib keymat "[SIGN_RSA_EMSA_PKCS1_SHA2_384, SIGN_RSA_EMSA_PKCS1_SHA2_256]" ?sel1]
    obtain added where
      f: "map deref (select_fallback lib keymat
          [SIGN_RSA_EMSA_PKCS1_SHA2_384, SIGN_RSA_EMSA_PKCS1_SHA2_256] ?sel1) =
        map deref ?sel1 @ map (\<lambda>s. \<lparr>scheme = s, params = None\<rparr>) added"
      and s: "set added \<subseteq> set [SIGN_RSA_EMSA_PKCS1_SHA2_384, SIGN_RSA_EMSA_PKCS1_SHA2_256]"
      by blast
    from True eq have "select_signature_schemes lib keymat auth private =
        select_fallback lib keymat
          [SIGN_RSA_EMSA_PKCS1_SHA2_384, SIGN_RSA_EMSA_PKCS1_SHA2_256] ?sel1"
      by (simp del: select_fallback.simps)
    with f tbl have "map deref (select_signature_schemes lib keymat auth private) =
        table_schemes lib keymat private @ map (\<lambda>s. \<lparr>scheme = s, params = None\<rparr>) added"
      by (simp del: select_fallback.simps)
    with s True show ?thesis
      by (intro exI [of _ added]) simp
  next
    case False
    with eq tbl show ?thesis
      by (intro exI [of _ "[]"]) simp
  qed
qed

lemma select_with_config:
  assumes "configured_schemes auth \<noteq> []"
  shows "map deref (select_signature_schemes lib keymat auth private) =
           filter (scheme_usable lib keymat (get_type private)) (configured_schemes auth)"
proof -
  let ?kt = "get_type private"
  obtain hc sel where r: "select_configured lib keymat ?kt auth (False, []) = (hc, sel)"
    by (cases "select_configured lib keymat ?kt auth (False, [])")
  from select_configured_fst [of lib keymat ?kt auth False "[]"] r assms
  have hc: "hc" by simp
  from select_configured_deref [of lib keymat ?kt auth False "[]"] r
  have "map deref sel = filter (scheme_usable lib keymat ?kt) (configured_schemes auth)"
    by simp
  with r hc show ?thesis by (simp add: select_signature_schemes_def)
qed

lemma scheme_tags_deref: "scheme_tags selected = map scheme (map deref selected)"
  by (simp add: scheme_tags_def)

text \<open>
  The search of lines 209 to 217 finds a scheme only where an address in the array,
  read as a \<^verbatim>\<open>signature_scheme_t\<close>, is the scheme's number.
\<close>

lemma scheme_found_iff:
  "scheme_found lib sch selected =
     (enum_value lib sch \<in> array_get_contained ` set selected)"
  by (induction selected) auto

text \<open>
  So a scheme that is in the array is not found there as long as no address of the
  allocator reads as the scheme's number (the numbers of the enumerators are small, the
  addresses of heap objects are not).
\<close>

lemma scheme_found_no_alias:
  assumes "\<forall>k. malloc lib k mod 2 ^ 32 \<noteq> enum_value lib sch"
    and "address ` set selected \<subseteq> range (malloc lib)"
  shows "\<not> scheme_found lib sch selected"
proof
  assume "scheme_found lib sch selected"
  then obtain p where p: "p \<in> set selected"
    and e: "enum_value lib sch = address p mod 2 ^ 32"
    by (auto simp: scheme_found_iff array_get_contained_def)
  from assms(2) p obtain k where "address p = malloc lib k" by auto
  with e have "malloc lib k mod 2 ^ 32 = enum_value lib sch" by simp
  with assms(1) show False by blast
qed

subsection \<open>The fallback schemes of an RSA key\<close>

text \<open>
  Claim C1 (the fallback schemes PKCS1-SHA2-384 and PKCS1-SHA2-256 are appended only when
  the candidate set lacks them, and never a second time) does not hold of the code. For an
  RSA key of 2048 bits, no configured scheme, \<^verbatim>\<open>rsa_pss\<close> off and a peer that supports
  SHA-256, SHA-384 and SHA-512, the table contributes PKCS1-SHA2-256, -384 and -512, and
  the fallback loop then appends PKCS1-SHA2-384 and PKCS1-SHA2-256 again: the search for
  a fallback scheme in the array compares the scheme with the pointer stored in the
  array, not with the scheme of the object behind it, and finds nothing.
\<close>

theorem fallback_appended_twice:
  "scheme_tags (select_signature_schemes (ex_lib False None []) ex_keymat []
      (ex_private KEY_RSA 2048)) =
     [SIGN_RSA_EMSA_PKCS1_SHA2_256, SIGN_RSA_EMSA_PKCS1_SHA2_384, SIGN_RSA_EMSA_PKCS1_SHA2_512,
      SIGN_RSA_EMSA_PKCS1_SHA2_384, SIGN_RSA_EMSA_PKCS1_SHA2_256]"
  by (simp add: scheme_tags_def select_signature_schemes_def ex_lib_sel ex_keymat_sel
      ex_private_sel ex_table_rsa_2048 ex_pss_def ex_plain_def insert_new_def
      array_get_contained_def ex_malloc_def)

subsection \<open>Explicitly configured schemes\<close>

text \<open>
  Claim C8: when the auth configuration has at least one explicit signature-scheme
  constraint, the selected schemes are exactly the configured ones whose key type is the
  private key's and whose hash the peer supports, in the configured order, and nothing
  else (no fallback scheme); when none of them is left, \<^verbatim>\<open>sign_signature_auth\<close> returns
  \<^verbatim>\<open>FAILED\<close>.
\<close>

theorem select_signature_schemes_configured:
  "configured_schemes auth \<noteq> [] \<Longrightarrow>
     map deref (select_signature_schemes lib keymat auth private) =
       filter (scheme_usable lib keymat (get_type private)) (configured_schemes auth)
     \<and> (filter (scheme_usable lib (get_keymat (ike_sa this)) (get_type private))
           (configured_schemes auth) = [] \<longrightarrow>
         sign_signature_auth lib this auth private idn = Inl FAILED)"
proof (intro conjI impI)
  assume "configured_schemes auth \<noteq> []"
  then show "map deref (select_signature_schemes lib keymat auth private) =
      filter (scheme_usable lib keymat (get_type private)) (configured_schemes auth)"
    by (rule select_with_config)
next
  assume "configured_schemes auth \<noteq> []"
    and "filter (scheme_usable lib (get_keymat (ike_sa this)) (get_type private))
           (configured_schemes auth) = []"
  then have "map deref (select_signature_schemes lib (get_keymat (ike_sa this)) auth private)
      = []"
    by (simp add: select_with_config)
  then show "sign_signature_auth lib this auth private idn = Inl FAILED"
    by (simp add: sign_signature_auth_def)
qed

theorem select_signature_schemes_configured_witness:
  "configured_schemes
     [AUTH_RULE_IKE_SIGNATURE_SCHEME (ex_plain SIGN_RSA_EMSA_PKCS1_SHA2_256),
      AUTH_RULE_AUTH_CLASS AUTH_CLASS_PUBKEY,
      AUTH_RULE_IKE_SIGNATURE_SCHEME (ex_plain SIGN_ECDSA_WITH_SHA384_DER),
      AUTH_RULE_IKE_SIGNATURE_SCHEME (ex_plain SIGN_RSA_EMSA_PKCS1_SHA1),
      AUTH_RULE_IKE_SIGNATURE_SCHEME (ex_pss HASH_SHA384 48)] \<noteq> []
   \<and> map deref (select_signature_schemes (ex_lib False None []) ex_keymat
        [AUTH_RULE_IKE_SIGNATURE_SCHEME (ex_plain SIGN_RSA_EMSA_PKCS1_SHA2_256),
         AUTH_RULE_AUTH_CLASS AUTH_CLASS_PUBKEY,
         AUTH_RULE_IKE_SIGNATURE_SCHEME (ex_plain SIGN_ECDSA_WITH_SHA384_DER),
         AUTH_RULE_IKE_SIGNATURE_SCHEME (ex_plain SIGN_RSA_EMSA_PKCS1_SHA1),
         AUTH_RULE_IKE_SIGNATURE_SCHEME (ex_pss HASH_SHA384 48)]
        (ex_private KEY_RSA 2048)) =
       [ex_plain SIGN_RSA_EMSA_PKCS1_SHA2_256, ex_pss HASH_SHA384 48]
   \<and> sign_signature_auth (ex_lib False None [])
        (ex_this [AUTH_RULE_IKE_SIGNATURE_SCHEME (ex_plain SIGN_RSA_EMSA_PKCS1_SHA1)] True False)
        [AUTH_RULE_IKE_SIGNATURE_SCHEME (ex_plain SIGN_RSA_EMSA_PKCS1_SHA1)]
        (ex_private KEY_RSA 2048) ''moon'' = Inl FAILED"
proof -
  let ?lib = "ex_lib False None []"
  let ?key = "ex_private KEY_RSA 2048"
  let ?auth = "[AUTH_RULE_IKE_SIGNATURE_SCHEME (ex_plain SIGN_RSA_EMSA_PKCS1_SHA2_256),
      AUTH_RULE_AUTH_CLASS AUTH_CLASS_PUBKEY,
      AUTH_RULE_IKE_SIGNATURE_SCHEME (ex_plain SIGN_ECDSA_WITH_SHA384_DER),
      AUTH_RULE_IKE_SIGNATURE_SCHEME (ex_plain SIGN_RSA_EMSA_PKCS1_SHA1),
      AUTH_RULE_IKE_SIGNATURE_SCHEME (ex_pss HASH_SHA384 48)]"
  let ?auth' = "[AUTH_RULE_IKE_SIGNATURE_SCHEME (ex_plain SIGN_RSA_EMSA_PKCS1_SHA1)]"
  have a: "configured_schemes ?auth \<noteq> []" by simp
  have a': "configured_schemes ?auth' \<noteq> []" by simp
  have u: "filter (scheme_usable ?lib ex_keymat KEY_RSA) (configured_schemes ?auth) =
      [ex_plain SIGN_RSA_EMSA_PKCS1_SHA2_256, ex_pss HASH_SHA384 48]"
    by (simp add: scheme_usable_def peer_supported_def ex_lib_sel ex_keymat_sel
        ex_plain_def ex_pss_def)
  have u': "filter (scheme_usable ?lib ex_keymat KEY_RSA) (configured_schemes ?auth') = []"
    by (simp add: scheme_usable_def peer_supported_def ex_lib_sel ex_keymat_sel
        ex_plain_def)
  from select_signature_schemes_configured [OF a, of ?lib ex_keymat ?key]
  have 1: "map deref (select_signature_schemes ?lib ex_keymat ?auth ?key) =
      [ex_plain SIGN_RSA_EMSA_PKCS1_SHA2_256, ex_pss HASH_SHA384 48]"
    by (simp only: ex_private_sel u)
  from select_signature_schemes_configured
    [OF a', of ?lib ex_keymat ?key "ex_this ?auth' True False" "''moon''"]
  have 2: "sign_signature_auth ?lib (ex_this ?auth' True False) ?auth' ?key ''moon'' = Inl FAILED"
    by (simp only: ex_private_sel ex_this_sel u')
  from a 1 2 show ?thesis by (intro conjI)
qed

subsection \<open>The legacy scheme selector\<close>

text \<open>
  Claim C6: the switch of \<^verbatim>\<open>sign_classic\<close> is the fixed map from the key to the scheme
  and the authentication method: an RSA key gives PKCS1-SHA1 and \<^verbatim>\<open>AUTH_RSA\<close>; an ECDSA
  key of exactly 256, 384 or 521 bits gives ECDSA-256, ECDSA-384 or ECDSA-521 with the
  matching method; an ECDSA key of any other size and a key of any other type give
  nothing, and \<^verbatim>\<open>sign_classic\<close> then returns \<^verbatim>\<open>FAILED\<close> without signing. Where the switch
  gives a scheme, \<^verbatim>\<open>sign_classic\<close> reports the switch's method, and a signature it
  returns was made by the key over the octets the keymat gave for the switch's scheme.
\<close>

theorem sign_classic_scheme_table:
  "sign_classic_scheme private =
     (if get_type private = KEY_RSA then Some (SIGN_RSA_EMSA_PKCS1_SHA1, AUTH_RSA)
      else if get_type private = KEY_ECDSA \<and> get_keysize private = 256
        then Some (SIGN_ECDSA_256, AUTH_ECDSA_256)
      else if get_type private = KEY_ECDSA \<and> get_keysize private = 384
        then Some (SIGN_ECDSA_384, AUTH_ECDSA_384)
      else if get_type private = KEY_ECDSA \<and> get_keysize private = 521
        then Some (SIGN_ECDSA_521, AUTH_ECDSA_521)
      else None)
   \<and> (sign_classic_scheme private = None \<longrightarrow>
        sign_classic this auth private idn method0 = (Inl FAILED, method0))
   \<and> (\<forall>sch method. sign_classic_scheme private = Some (sch, method) \<longrightarrow>
        snd (sign_classic this auth private idn method0) = method \<and>
        (\<forall>auth_data. fst (sign_classic this auth private idn method0) = Inr auth_data \<longrightarrow>
           (\<exists>octets p.
              get_auth_octets_scheme this False idn \<lparr>scheme = sch, params = None\<rparr>
                = Some (octets, p) \<and>
              sign private (scheme p) None octets = Some auth_data)))"
proof (intro conjI allI impI)
  show "sign_classic_scheme private =
     (if get_type private = KEY_RSA then Some (SIGN_RSA_EMSA_PKCS1_SHA1, AUTH_RSA)
      else if get_type private = KEY_ECDSA \<and> get_keysize private = 256
        then Some (SIGN_ECDSA_256, AUTH_ECDSA_256)
      else if get_type private = KEY_ECDSA \<and> get_keysize private = 384
        then Some (SIGN_ECDSA_384, AUTH_ECDSA_384)
      else if get_type private = KEY_ECDSA \<and> get_keysize private = 521
        then Some (SIGN_ECDSA_521, AUTH_ECDSA_521)
      else None)"
    by (cases "get_type private") (simp_all add: sign_classic_scheme_def)
next
  assume "sign_classic_scheme private = None"
  then show "sign_classic this auth private idn method0 = (Inl FAILED, method0)"
    by (simp add: sign_classic_def)
next
  fix sch mth
  assume "sign_classic_scheme private = Some (sch, mth)"
  then show "snd (sign_classic this auth private idn method0) = mth"
    by (simp add: sign_classic_def split: option.splits)
next
  fix sch mth auth_data
  assume "sign_classic_scheme private = Some (sch, mth)"
    and "fst (sign_classic this auth private idn method0) = Inr auth_data"
  then show "\<exists>octets p.
      get_auth_octets_scheme this False idn \<lparr>scheme = sch, params = None\<rparr> = Some (octets, p) \<and>
      sign private (scheme p) None octets = Some auth_data"
    by (auto simp: sign_classic_def split: option.splits)
qed

theorem sign_classic_scheme_table_witness:
  "sign_classic_scheme (ex_private KEY_ECDSA 512) = None
   \<and> sign_classic (ex_this [] False False) [] (ex_private KEY_ECDSA 512) ''moon'' AUTH_NONE
       = (Inl FAILED, AUTH_NONE)
   \<and> sign_classic_scheme (ex_private KEY_ECDSA 384) = Some (SIGN_ECDSA_384, AUTH_ECDSA_384)
   \<and> snd (sign_classic (ex_this [] False False) [] (ex_private KEY_ECDSA 384) ''moon'' AUTH_NONE)
       = AUTH_ECDSA_384"
proof -
  note t = sign_classic_scheme_table
      [of "ex_private KEY_ECDSA 512" "ex_this [] False False" "[]" "''moon''" AUTH_NONE]
  note t' = sign_classic_scheme_table
      [of "ex_private KEY_ECDSA 384" "ex_this [] False False" "[]" "''moon''" AUTH_NONE]
  from t [THEN conjunct1]
  have 1: "sign_classic_scheme (ex_private KEY_ECDSA 512) = None"
    by (simp add: ex_private_sel)
  from t [THEN conjunct2, THEN conjunct1] 1
  have 2: "sign_classic (ex_this [] False False) [] (ex_private KEY_ECDSA 512) ''moon'' AUTH_NONE
       = (Inl FAILED, AUTH_NONE)"
    by (rule mp)
  from t' [THEN conjunct1]
  have 3: "sign_classic_scheme (ex_private KEY_ECDSA 384) = Some (SIGN_ECDSA_384, AUTH_ECDSA_384)"
    by (simp add: ex_private_sel)
  from t' [THEN conjunct2, THEN conjunct2, THEN spec, THEN spec, THEN mp, OF 3]
  have 4: "snd (sign_classic (ex_this [] False False) [] (ex_private KEY_ECDSA 384) ''moon''
       AUTH_NONE) = AUTH_ECDSA_384"
    by (rule conjunct1)
  from 1 2 3 4 show ?thesis by (intro conjI)
qed

subsection \<open>Duplicate tags and RSASSA-PSS in the selected schemes\<close>

text \<open>
  Claim C2 says that the returned list never has two entries with the same scheme tag and
  has no RSASSA-PSS entry when \<^verbatim>\<open>rsa_pss\<close> is off and no configured scheme asks for it.
  The first half does not hold: the configured schemes are copied as they are, so
  RSASSA-PSS configured with SHA-256 and with SHA-384 gives two entries of the tag
  \<^verbatim>\<open>SIGN_RSA_EMSA_PSS\<close>.
\<close>

theorem select_signature_schemes_same_tag_twice:
  "scheme_tags (select_signature_schemes (ex_lib False None []) ex_keymat
      [AUTH_RULE_IKE_SIGNATURE_SCHEME (ex_pss HASH_SHA256 32),
       AUTH_RULE_IKE_SIGNATURE_SCHEME (ex_pss HASH_SHA384 48)]
      (ex_private KEY_RSA 2048)) = [SIGN_RSA_EMSA_PSS, SIGN_RSA_EMSA_PSS]
   \<and> \<not> distinct (scheme_tags (select_signature_schemes (ex_lib False None []) ex_keymat
      [AUTH_RULE_IKE_SIGNATURE_SCHEME (ex_pss HASH_SHA256 32),
       AUTH_RULE_IKE_SIGNATURE_SCHEME (ex_pss HASH_SHA384 48)]
      (ex_private KEY_RSA 2048)))"
  by (simp add: scheme_tags_def select_signature_schemes_def ex_lib_sel ex_keymat_sel
      ex_private_sel ex_pss_def insert_new_def)

text \<open>
  Claim C2 as amended: the returned list has no RSASSA-PSS entry when \<^verbatim>\<open>rsa_pss\<close> is off
  and no configured scheme is RSASSA-PSS. With configured schemes its tags are distinct
  exactly when those of the usable configured schemes are; with none, and a key that is
  not RSA, exactly when those of the table's usable schemes are. (The fallback schemes of
  an RSA key are the matter of claim C1.)
\<close>

theorem select_signature_schemes_pss_and_tags:
  "(\<not> rsa_pss lib \<and> SIGN_RSA_EMSA_PSS \<notin> scheme ` set (configured_schemes auth) \<longrightarrow>
      SIGN_RSA_EMSA_PSS \<notin> set (scheme_tags (select_signature_schemes lib keymat auth private)))
   \<and> (configured_schemes auth \<noteq> [] \<longrightarrow>
        distinct (scheme_tags (select_signature_schemes lib keymat auth private)) =
        distinct (map scheme
          (filter (scheme_usable lib keymat (get_type private)) (configured_schemes auth))))
   \<and> (configured_schemes auth = [] \<and> get_type private \<noteq> KEY_RSA \<longrightarrow>
        distinct (scheme_tags (select_signature_schemes lib keymat auth private)) =
        distinct (map scheme (table_schemes lib keymat private)))"
proof (intro conjI impI)
  assume a: "\<not> rsa_pss lib \<and> SIGN_RSA_EMSA_PSS \<notin> scheme ` set (configured_schemes auth)"
  show "SIGN_RSA_EMSA_PSS \<notin> set (scheme_tags (select_signature_schemes lib keymat auth private))"
  proof (cases "configured_schemes auth = []")
    case True
    then have e: "configured_schemes auth = []" .
    from select_no_config [OF e, of lib keymat "private"] obtain added where
      d: "map deref (select_signature_schemes lib keymat auth private) =
           table_schemes lib keymat private @ map (\<lambda>s. \<lparr>scheme = s, params = None\<rparr>) added"
      and s: "set added \<subseteq> {SIGN_RSA_EMSA_PKCS1_SHA2_384, SIGN_RSA_EMSA_PKCS1_SHA2_256}"
      by blast
    from a have "SIGN_RSA_EMSA_PSS \<notin> scheme ` set (table_schemes lib keymat private)"
      by (auto simp: table_schemes_def)
    moreover from s have "SIGN_RSA_EMSA_PSS \<notin> set added" by auto
    ultimately show ?thesis
      by (simp add: scheme_tags_deref d image_iff comp_def)
  next
    case False
    then have ne: "configured_schemes auth \<noteq> []" .
    from a show ?thesis
      by (auto simp: scheme_tags_deref select_with_config [OF ne])
  qed
next
  assume "configured_schemes auth \<noteq> []"
  then show "distinct (scheme_tags (select_signature_schemes lib keymat auth private)) =
        distinct (map scheme
          (filter (scheme_usable lib keymat (get_type private)) (configured_schemes auth)))"
    by (simp add: scheme_tags_deref select_with_config)
next
  assume a: "configured_schemes auth = [] \<and> get_type private \<noteq> KEY_RSA"
  then have e: "configured_schemes auth = []" by simp
  from select_no_config [OF e, of lib keymat "private"] a
  have "map deref (select_signature_schemes lib keymat auth private) =
      table_schemes lib keymat private" by auto
  then show "distinct (scheme_tags (select_signature_schemes lib keymat auth private)) =
        distinct (map scheme (table_schemes lib keymat private))"
    by (simp add: scheme_tags_deref)
qed

theorem select_signature_schemes_pss_and_tags_witness:
  "SIGN_RSA_EMSA_PSS \<notin> set (scheme_tags (select_signature_schemes (ex_lib False None [])
       ex_keymat [] (ex_private KEY_RSA 2048)))
   \<and> distinct (scheme_tags (select_signature_schemes (ex_lib False None []) ex_keymat
       [AUTH_RULE_IKE_SIGNATURE_SCHEME (ex_plain SIGN_RSA_EMSA_PKCS1_SHA2_256),
        AUTH_RULE_IKE_SIGNATURE_SCHEME (ex_pss HASH_SHA384 48)]
       (ex_private KEY_RSA 2048)))
   \<and> distinct (scheme_tags (select_signature_schemes (ex_lib False None [])
       ex_keymat [] (ex_private KEY_ECDSA 256)))"
proof -
  let ?lib = "ex_lib False None []"
  let ?auth = "[AUTH_RULE_IKE_SIGNATURE_SCHEME (ex_plain SIGN_RSA_EMSA_PKCS1_SHA2_256),
        AUTH_RULE_IKE_SIGNATURE_SCHEME (ex_pss HASH_SHA384 48)]"
  from select_signature_schemes_pss_and_tags
    [of ?lib "[]" ex_keymat "ex_private KEY_RSA 2048", THEN conjunct1]
  have 1: "SIGN_RSA_EMSA_PSS \<notin> set (scheme_tags (select_signature_schemes ?lib
       ex_keymat [] (ex_private KEY_RSA 2048)))"
    by (simp add: ex_lib_sel)
  have "distinct (map scheme
      (filter (scheme_usable ?lib ex_keymat (get_type (ex_private KEY_RSA 2048)))
        (configured_schemes ?auth)))"
    by (simp add: scheme_usable_def peer_supported_def ex_lib_sel ex_keymat_sel
        ex_private_sel ex_plain_def ex_pss_def)
  with select_signature_schemes_pss_and_tags
    [of ?lib ?auth ex_keymat "ex_private KEY_RSA 2048", THEN conjunct2, THEN conjunct1]
  have 2: "distinct (scheme_tags (select_signature_schemes ?lib ex_keymat ?auth
       (ex_private KEY_RSA 2048)))"
    by simp
  have "distinct (map scheme (table_schemes ?lib ex_keymat (ex_private KEY_ECDSA 256)))"
    by (simp add: table_schemes_def peer_supported_def ex_lib_sel ex_keymat_sel
        ex_private_sel ex_signature_schemes_for_key_def ex_scheme_map_def ex_plain_def)
  with select_signature_schemes_pss_and_tags
    [of ?lib "[]" ex_keymat "ex_private KEY_ECDSA 256", THEN conjunct2, THEN conjunct2]
  have 3: "distinct (scheme_tags (select_signature_schemes ?lib ex_keymat []
       (ex_private KEY_ECDSA 256)))"
    by (simp add: ex_private_sel)
  from 1 2 3 show ?thesis by (intro conjI)
qed

subsection \<open>Candidates whose algorithm identifier cannot be built\<close>

lemma sign_schemes_failed_iff:
  "(sign_schemes lib private octets cands = Inl FAILED) =
     (\<forall>c\<in>set cands. candidate_fails lib private octets c)"
  by (induction cands) (auto simp: candidate_fails_def split: option.splits)

lemma sign_schemes_Inl:
  "sign_schemes lib private octets cands = Inl st \<Longrightarrow> st = FAILED"
  by (induction cands) (auto split: option.splits)

lemma sign_schemes_first:
  "\<forall>c\<in>set pre. candidate_fails lib private octets c \<Longrightarrow>
   sign_schemes lib private octets (pre @ rest) = sign_schemes lib private octets rest"
  by (induction pre) (auto simp: candidate_fails_def split: option.splits)

lemma ex_build_plain_256:
  "build_signature_auth_data (ex_lib pss private publics) sig
     (ex_plain SIGN_RSA_EMSA_PKCS1_SHA2_256) =
   Some ([0x0f, 0x30, 0x0d, 0x06, 0x09, 0x2a, 0x86, 0x48, 0x86, 0xf7, 0x0d, 0x01, 0x01, 0x0b,
          0x05, 0x00] @ sig)"
  by (simp add: build_signature_auth_data_def ex_lib_sel ex_plain_def OID_UNKNOWN_def
      ex_asn1_algorithmIdentifier_def ex_asn1_algorithmIdentifier_params_def ex_oid_bytes_def)

lemma ex_candidates_fail:
  "candidate_fails (ex_lib pss private publics) (ex_private KEY_RSA sz) octets
     (ex_pss HASH_SHA256 20)"
  "candidate_fails (ex_lib pss private publics) (ex_private KEY_RSA sz) octets
     (ex_plain SIGN_RSA_EMSA_PKCS1_SHA2_224)"
  "candidate_fails (ex_lib pss private publics) (ex_private KEY_RSA sz) octets
     (ex_pss HASH_SHA512 64)"
  by (simp_all add: candidate_fails_def ex_private_sel ex_sign_def ex_pss_def ex_plain_def
      build_signature_auth_data_def ex_lib_sel ex_rsa_pss_params_build_def OID_UNKNOWN_def)

text \<open>
  Claim C10: in \<^verbatim>\<open>sign_signature_auth\<close>, a candidate whose signature is made but whose
  algorithm identifier cannot be built is passed over exactly as one the key does not
  sign with: the loop goes on with the next candidate, the first candidate that gives
  authentication data ends it with that data, and the result is \<^verbatim>\<open>FAILED\<close> exactly when
  every candidate fails. The loop runs over the scheme array as the keymat returned it.
\<close>

theorem sign_schemes_encoding_failure:
  "(\<forall>sig. sign private (scheme p) (params p) octets = Some sig \<and>
          build_signature_auth_data lib sig p = None \<longrightarrow>
      sign_schemes lib private octets (p # rest) = sign_schemes lib private octets rest)
   \<and> (sign private (scheme p) (params p) octets = None \<longrightarrow>
      sign_schemes lib private octets (p # rest) = sign_schemes lib private octets rest)
   \<and> (\<forall>pre c sig auth_data.
        (\<forall>q\<in>set pre. candidate_fails lib private octets q) \<and>
        sign private (scheme c) (params c) octets = Some sig \<and>
        build_signature_auth_data lib sig c = Some auth_data \<longrightarrow>
        sign_schemes lib private octets (pre @ c # rest) = Inr auth_data)
   \<and> (sign_schemes lib private octets cands = Inl FAILED) =
       (\<forall>c\<in>set cands. candidate_fails lib private octets c)
   \<and> (\<forall>st. sign_schemes lib private octets cands = Inl st \<longrightarrow> st = FAILED)
   \<and> (\<forall>octets' cands'.
        select_signature_schemes lib (get_keymat (ike_sa this)) auth private \<noteq> [] \<and>
        get_auth_octets (get_keymat (ike_sa this)) False (ike_sa_init this) (nonce this) idn
          (reserved this)
          (map deref (select_signature_schemes lib (get_keymat (ike_sa this)) auth private))
        = Some (octets', cands') \<longrightarrow>
        sign_signature_auth lib this auth private idn =
          sign_schemes lib private octets' cands')"
proof (intro conjI allI impI)
  fix sig
  assume "sign private (scheme p) (params p) octets = Some sig \<and>
          build_signature_auth_data lib sig p = None"
  then show "sign_schemes lib private octets (p # rest) = sign_schemes lib private octets rest"
    by simp
next
  assume "sign private (scheme p) (params p) octets = None"
  then show "sign_schemes lib private octets (p # rest) = sign_schemes lib private octets rest"
    by simp
next
  fix pre c sig auth_data
  assume a: "(\<forall>q\<in>set pre. candidate_fails lib private octets q) \<and>
        sign private (scheme c) (params c) octets = Some sig \<and>
        build_signature_auth_data lib sig c = Some auth_data"
  then have "sign_schemes lib private octets (pre @ c # rest) =
      sign_schemes lib private octets (c # rest)"
    by (simp add: sign_schemes_first)
  with a show "sign_schemes lib private octets (pre @ c # rest) = Inr auth_data"
    by simp
next
  show "(sign_schemes lib private octets cands = Inl FAILED) =
       (\<forall>c\<in>set cands. candidate_fails lib private octets c)"
    by (rule sign_schemes_failed_iff)
next
  fix st
  assume "sign_schemes lib private octets cands = Inl st"
  then show "st = FAILED" by (rule sign_schemes_Inl)
next
  fix octets' cands'
  assume "select_signature_schemes lib (get_keymat (ike_sa this)) auth private \<noteq> [] \<and>
        get_auth_octets (get_keymat (ike_sa this)) False (ike_sa_init this) (nonce this) idn
          (reserved this)
          (map deref (select_signature_schemes lib (get_keymat (ike_sa this)) auth private))
        = Some (octets', cands')"
  then show "sign_signature_auth lib this auth private idn =
          sign_schemes lib private octets' cands'"
    by (simp add: sign_signature_auth_def Let_def)
qed

theorem sign_schemes_encoding_failure_witness:
  "sign (ex_private KEY_RSA 2048) (scheme (ex_pss HASH_SHA256 20))
       (params (ex_pss HASH_SHA256 20)) [1, 2] = Some [0x53, 1, 2]
   \<and> build_signature_auth_data (ex_lib True None []) [0x53, 1, 2] (ex_pss HASH_SHA256 20) = None
   \<and> sign_schemes (ex_lib True None []) (ex_private KEY_RSA 2048) [1, 2]
        [ex_pss HASH_SHA256 20, ex_plain SIGN_RSA_EMSA_PKCS1_SHA2_256]
      = sign_schemes (ex_lib True None []) (ex_private KEY_RSA 2048) [1, 2]
          [ex_plain SIGN_RSA_EMSA_PKCS1_SHA2_256]
   \<and> sign_schemes (ex_lib True None []) (ex_private KEY_RSA 2048) [1, 2]
        ([ex_pss HASH_SHA256 20, ex_plain SIGN_RSA_EMSA_PKCS1_SHA2_224, ex_pss HASH_SHA512 64]
         @ [ex_plain SIGN_RSA_EMSA_PKCS1_SHA2_256])
      = Inr [0x0f, 0x30, 0x0d, 0x06, 0x09, 0x2a, 0x86, 0x48, 0x86, 0xf7, 0x0d, 0x01, 0x01, 0x0b,
             0x05, 0x00, 0x53, 1, 2]
   \<and> sign_schemes (ex_lib True None []) (ex_private KEY_RSA 2048) [1, 2]
        [ex_pss HASH_SHA256 20, ex_plain SIGN_RSA_EMSA_PKCS1_SHA2_224, ex_pss HASH_SHA512 64]
      = Inl FAILED
   \<and> sign_signature_auth (ex_lib True None [])
        (ex_this [AUTH_RULE_IKE_SIGNATURE_SCHEME (ex_pss HASH_SHA256 20),
                  AUTH_RULE_IKE_SIGNATURE_SCHEME (ex_plain SIGN_RSA_EMSA_PKCS1_SHA2_256)]
           True False)
        [AUTH_RULE_IKE_SIGNATURE_SCHEME (ex_pss HASH_SHA256 20),
         AUTH_RULE_IKE_SIGNATURE_SCHEME (ex_plain SIGN_RSA_EMSA_PKCS1_SHA2_256)]
        (ex_private KEY_RSA 2048) ''moon''
      = sign_schemes (ex_lib True None []) (ex_private KEY_RSA 2048)
          [0x49, 0x02, 0x4e, 0x01, 0, 0, 0]
          [ex_pss HASH_SHA256 20, ex_plain SIGN_RSA_EMSA_PKCS1_SHA2_256]"
proof -
  let ?lib = "ex_lib True None []"
  let ?key = "ex_private KEY_RSA 2048"
  let ?p1 = "ex_pss HASH_SHA256 20"
  let ?p2 = "ex_plain SIGN_RSA_EMSA_PKCS1_SHA2_224"
  let ?p3 = "ex_pss HASH_SHA512 64"
  let ?p4 = "ex_plain SIGN_RSA_EMSA_PKCS1_SHA2_256"
  let ?auth = "[AUTH_RULE_IKE_SIGNATURE_SCHEME ?p1, AUTH_RULE_IKE_SIGNATURE_SCHEME ?p4]"
  let ?me = "ex_this ?auth True False"
  note t = sign_schemes_encoding_failure
    [of ?key ?p1 "[1, 2]" ?lib "[?p4]" "[?p1, ?p2, ?p3]" ?me ?auth "''moon''"]
  have s1: "sign ?key (scheme ?p1) (params ?p1) [1, 2] = Some [0x53, 1, 2]"
    by (simp add: ex_private_sel ex_sign_def ex_pss_def)
  have b1: "build_signature_auth_data ?lib [0x53, 1, 2] ?p1 = None"
    by (simp add: build_signature_auth_data_def ex_lib_sel ex_pss_def OID_UNKNOWN_def
        ex_rsa_pss_params_build_def)
  from t [THEN conjunct1, THEN spec, of "[0x53, 1, 2]"] s1 b1
  have 1: "sign_schemes ?lib ?key [1, 2] [?p1, ?p4] = sign_schemes ?lib ?key [1, 2] [?p4]"
    by blast
  have s4: "sign ?key (scheme ?p4) (params ?p4) [1, 2] = Some [0x53, 1, 2]"
    by (simp add: ex_private_sel ex_sign_def ex_plain_def)
  have b4: "build_signature_auth_data ?lib [0x53, 1, 2] ?p4 =
      Some [0x0f, 0x30, 0x0d, 0x06, 0x09, 0x2a, 0x86, 0x48, 0x86, 0xf7, 0x0d, 0x01, 0x01, 0x0b,
            0x05, 0x00, 0x53, 1, 2]"
    by (simp add: ex_build_plain_256)
  have f: "\<forall>q\<in>set [?p1, ?p2, ?p3]. candidate_fails ?lib ?key [1, 2] q"
    by (simp add: ex_candidates_fail)
  note t3 = sign_schemes_encoding_failure
      [of ?key ?p1 "[1, 2]" ?lib "[]" "[]" ?me ?auth "''moon''",
      THEN conjunct2, THEN conjunct2, THEN conjunct1,
      THEN spec [of _ "[?p1, ?p2, ?p3]"], THEN spec [of _ ?p4],
      THEN spec [of _ "[0x53, 1, 2]"],
      THEN spec [of _ "[0x0f, 0x30, 0x0d, 0x06, 0x09, 0x2a, 0x86, 0x48, 0x86, 0xf7, 0x0d, 0x01,
            0x01, 0x0b, 0x05, 0x00, 0x53, 1, 2]"], THEN mp]
  from t3 [OF conjI [OF f conjI [OF s4 b4]]]
  have 2: "sign_schemes ?lib ?key [1, 2] ([?p1, ?p2, ?p3] @ [?p4]) =
      Inr [0x0f, 0x30, 0x0d, 0x06, 0x09, 0x2a, 0x86, 0x48, 0x86, 0xf7, 0x0d, 0x01, 0x01, 0x0b,
           0x05, 0x00, 0x53, 1, 2]" .
  from t [THEN conjunct2, THEN conjunct2, THEN conjunct2, THEN conjunct1] f
  have 3: "sign_schemes ?lib ?key [1, 2] [?p1, ?p2, ?p3] = Inl FAILED"
    by blast
  have sel: "map deref (select_signature_schemes ?lib ex_keymat ?auth ?key) = [?p1, ?p4]"
    by (simp add: select_with_config scheme_usable_def peer_supported_def ex_lib_sel
        ex_keymat_sel ex_private_sel ex_pss_def ex_plain_def)
  then have ne: "select_signature_schemes ?lib ex_keymat ?auth ?key \<noteq> []"
    by auto
  from t [THEN conjunct2, THEN conjunct2, THEN conjunct2, THEN conjunct2, THEN conjunct2,
      THEN spec, THEN spec, of "[0x49, 0x02, 0x4e, 0x01, 0, 0, 0]" "[?p1, ?p4]"] sel ne
  have 4: "sign_signature_auth ?lib ?me ?auth ?key ''moon'' =
      sign_schemes ?lib ?key [0x49, 0x02, 0x4e, 0x01, 0, 0, 0] [?p1, ?p4]"
    by (simp add: ex_this_sel ex_keymat_sel)
  from s1 b1 1 2 3 4 show ?thesis by (intro conjI)
qed

subsection \<open>Building and parsing the algorithm identifier\<close>





subsection \<open>The loop over the trusted public keys\<close>

lemma process_reaches:
  assumes "get_payload_auth message = Some ap"
    and "process_auth_method lib (auth_method ap) (data ap) = Inr (kt, p, sig)"
    and "get_auth_octets_scheme this True (get_other_id (ike_sa this)) p = Some (octets, p')"
  shows "process lib this message =
    verify_candidates p' octets sig
      (\<not> has_condition (ike_sa this) COND_ONLINE_VALIDATION_SUSPENDED)
      (create_public_enumerator lib kt (get_other_id (ike_sa this))
         (get_auth_cfg (ike_sa this) False)
         (\<not> has_condition (ike_sa this) COND_ONLINE_VALIDATION_SUSPENDED))
      NOT_FOUND"
  using assms by (simp add: process_def Let_def)

lemma verify_candidates_none:
  "\<forall>c\<in>set cands. \<not> verify (fst c) (scheme p) (params p) octets sig \<Longrightarrow>
   verify_candidates p octets sig online cands st = (if cands = [] then st else FAILED, [])"
  by (induction cands arbitrary: st) auto

lemma verify_candidates_first:
  "\<forall>c\<in>set pre. \<not> verify (fst c) (scheme p) (params p) octets sig \<Longrightarrow>
   verify public (scheme p) (params p) octets sig \<Longrightarrow>
   verify_candidates p octets sig online (pre @ (public, current_auth) # rest) st =
     (SUCCESS,
      [Merge current_auth, Add (AUTH_RULE_AUTH_CLASS AUTH_CLASS_PUBKEY),
       Add (AUTH_RULE_IKE_SIGNATURE_SCHEME p)]
      @ (if online then [] else [Add (AUTH_RULE_CERT_VALIDATION_SUSPENDED True)]))"
  by (induction pre arbitrary: st) auto

lemma verify_candidates_no_calls:
  "fst (verify_candidates p octets sig online cands st) \<noteq> SUCCESS \<Longrightarrow>
   snd (verify_candidates p octets sig online cands st) = []"
  by (induction cands arbitrary: st) (auto split: if_splits)

lemma ex_parse_rsa_256:
  "ex_asn1_parse_algorithmIdentifier (ex_asn1_algorithmIdentifier 2 @ sig) = (2, [0x05, 0x00])"
  by (simp add: ex_asn1_parse_algorithmIdentifier_def ex_asn1_algorithmIdentifier_def
      ex_asn1_algorithmIdentifier_params_def ex_oid_bytes_def OID_UNKNOWN_def)

lemma ex_length_rsa_256: "length (ex_asn1_algorithmIdentifier 2) = 15"
  by (simp add: ex_asn1_algorithmIdentifier_def ex_asn1_algorithmIdentifier_params_def
      ex_oid_bytes_def)

lemma ex_process_auth_method_ds:
  "process_auth_method (ex_lib pss private publics) AUTH_DS
     (len # ex_asn1_algorithmIdentifier 2 @ sig) =
   Inr (KEY_RSA, ex_plain SIGN_RSA_EMSA_PKCS1_SHA2_256,
        chunk_skip (ex_asn1_algorithmIdentifier 2 @ sig) (unat len))"
proof -
  have "chunk_skip (len # ex_asn1_algorithmIdentifier 2 @ sig) 1 =
      ex_asn1_algorithmIdentifier 2 @ sig"
    by (simp add: chunk_skip_def ex_length_rsa_256)
  then show ?thesis
    by (simp add: process_auth_method_def parse_signature_auth_data_def ex_lib_sel
        ex_parse_rsa_256 ex_signature_scheme_from_oid_def ex_plain_def)
qed

lemma ex_get_auth_octets_scheme:
  "get_auth_octets_scheme (ex_this auth ds suspended) vrfy idn p =
     Some ([0x49, 0x02, 0x4e, 0x01, 0, 0, 0], p)"
  by (simp add: get_auth_octets_scheme_def ex_this_sel ex_keymat_sel)

lemma ex_verify:
  "verify (ex_public t) s p octets sig = (ex_sign t s p octets = Some sig)"
  by (simp add: ex_public_def)

text \<open>
  Claim C4: when \<^verbatim>\<open>process\<close> reaches the enumeration of the trusted public keys (the
  message has an AUTH payload, its method is decoded, the keymat gives the octets) and
  no enumerated key verifies the signature, it returns \<^verbatim>\<open>NOT_FOUND\<close> if the enumeration
  yielded no key and \<^verbatim>\<open>FAILED\<close> if it yielded at least one; the two are different values
  of \<^verbatim>\<open>status_t\<close>. No call is made on the auth configuration.
\<close>

theorem process_no_valid_key:
  assumes "get_payload_auth message = Some ap"
    and "process_auth_method lib (auth_method ap) (data ap) = Inr (kt, p, sig)"
    and "get_auth_octets_scheme this True (get_other_id (ike_sa this)) p = Some (octets, p')"
    and "cands = create_public_enumerator lib kt (get_other_id (ike_sa this))
         (get_auth_cfg (ike_sa this) False)
         (\<not> has_condition (ike_sa this) COND_ONLINE_VALIDATION_SUSPENDED)"
    and "\<forall>c\<in>set cands. \<not> verify (fst c) (scheme p') (params p') octets sig"
  shows "process lib this message = (if cands = [] then NOT_FOUND else FAILED, [])
    \<and> NOT_FOUND \<noteq> FAILED"
  using assms by (simp add: process_reaches verify_candidates_none)

theorem process_no_valid_key_witness:
  "process (ex_lib False None []) (ex_this [] True False)
     [PLV2_OTHER 33,
      PLV2_AUTH \<lparr>auth_method = AUTH_DS,
        data = 0x0f # ex_asn1_algorithmIdentifier 2 @ [0x53, 0x49, 0x02, 0x4e, 0x01, 0, 0, 0]\<rparr>]
     = (NOT_FOUND, [])
   \<and> process (ex_lib False None [(ex_public KEY_ECDSA, []), (ex_public KEY_ED25519, [])])
       (ex_this [] True False)
       [PLV2_OTHER 33,
        PLV2_AUTH \<lparr>auth_method = AUTH_DS,
          data = 0x0f # ex_asn1_algorithmIdentifier 2 @ [0x53, 0x49, 0x02, 0x4e, 0x01, 0, 0, 0]\<rparr>]
     = (FAILED, [])"
proof -
  let ?ap = "\<lparr>auth_method = AUTH_DS,
        data = 0x0f # ex_asn1_algorithmIdentifier 2 @ [0x53, 0x49, 0x02, 0x4e, 0x01, 0, 0, 0]\<rparr>"
  let ?msg = "[PLV2_OTHER 33, PLV2_AUTH ?ap]"
  let ?me = "ex_this [] True False"
  let ?p = "ex_plain SIGN_RSA_EMSA_PKCS1_SHA2_256"
  let ?sig = "[0x53, 0x49, 0x02, 0x4e, 0x01, 0, 0, 0] :: chunk_t"
  let ?keys = "[(ex_public KEY_ECDSA, []), (ex_public KEY_ED25519, [])]"
  have g: "get_payload_auth ?msg = Some ?ap" by simp
  have m: "process_auth_method (ex_lib False None publics) (auth_method ?ap) (data ?ap) =
      Inr (KEY_RSA, ?p, ?sig)" for publics
    by (simp add: ex_process_auth_method_ds chunk_skip_def ex_length_rsa_256)
  have o: "get_auth_octets_scheme ?me True (get_other_id (ike_sa ?me)) ?p =
      Some ([0x49, 0x02, 0x4e, 0x01, 0, 0, 0], ?p)"
    by (rule ex_get_auth_octets_scheme)
  have e0: "[] = create_public_enumerator (ex_lib False None []) KEY_RSA
      (get_other_id (ike_sa ?me)) (get_auth_cfg (ike_sa ?me) False)
      (\<not> has_condition (ike_sa ?me) COND_ONLINE_VALIDATION_SUSPENDED)"
    by (simp add: ex_lib_sel ex_this_sel)
  have e2: "?keys = create_public_enumerator (ex_lib False None ?keys) KEY_RSA
      (get_other_id (ike_sa ?me)) (get_auth_cfg (ike_sa ?me) False)
      (\<not> has_condition (ike_sa ?me) COND_ONLINE_VALIDATION_SUSPENDED)"
    by (simp add: ex_lib_sel ex_this_sel)
  have f0: "\<forall>c\<in>set []. \<not> verify (fst c) (scheme ?p) (params ?p)
      [0x49, 0x02, 0x4e, 0x01, 0, 0, 0] ?sig"
    by simp
  have f2: "\<forall>c\<in>set ?keys. \<not> verify (fst c) (scheme ?p) (params ?p)
      [0x49, 0x02, 0x4e, 0x01, 0, 0, 0] ?sig"
    by (simp add: ex_verify ex_sign_def ex_plain_def)
  from process_no_valid_key [OF g m o e0 f0]
  have 1: "process (ex_lib False None []) ?me ?msg = (NOT_FOUND, [])" by simp
  from process_no_valid_key [OF g m o e2 f2]
  have 2: "process (ex_lib False None ?keys) ?me ?msg = (FAILED, [])" by simp
  from 1 2 show ?thesis by (intro conjI)
qed

text \<open>
  Claim C5: when some enumerated key verifies the signature, the first such key ends the
  enumeration (the keys behind it have no influence), the result is \<^verbatim>\<open>SUCCESS\<close>, and the
  calls on the session's auth configuration are exactly: the merge of that key's auth
  configuration, the auth class \<^verbatim>\<open>AUTH_CLASS_PUBKEY\<close>, the signature scheme the keymat
  confirmed, and after these the validation-suspended marker if and only if the
  condition \<^verbatim>\<open>COND_ONLINE_VALIDATION_SUSPENDED\<close> is set.
\<close>

theorem process_first_valid_key:
  assumes "get_payload_auth message = Some ap"
    and "process_auth_method lib (auth_method ap) (data ap) = Inr (kt, p, sig)"
    and "get_auth_octets_scheme this True (get_other_id (ike_sa this)) p = Some (octets, p')"
    and "create_public_enumerator lib kt (get_other_id (ike_sa this))
         (get_auth_cfg (ike_sa this) False)
         (\<not> has_condition (ike_sa this) COND_ONLINE_VALIDATION_SUSPENDED)
       = pre @ (public, current_auth) # rest"
    and "\<forall>c\<in>set pre. \<not> verify (fst c) (scheme p') (params p') octets sig"
    and "verify public (scheme p') (params p') octets sig"
  shows "process lib this message =
    (SUCCESS,
     [Merge current_auth, Add (AUTH_RULE_AUTH_CLASS AUTH_CLASS_PUBKEY),
      Add (AUTH_RULE_IKE_SIGNATURE_SCHEME p')]
     @ (if has_condition (ike_sa this) COND_ONLINE_VALIDATION_SUSPENDED
        then [Add (AUTH_RULE_CERT_VALIDATION_SUSPENDED True)] else []))"
  using assms by (simp add: process_reaches verify_candidates_first)

theorem process_first_valid_key_witness:
  "process
     (ex_lib False None
        [(ex_public KEY_ECDSA, [AUTH_RULE_OTHER 1]), (ex_public KEY_RSA, [AUTH_RULE_OTHER 2]),
         (ex_public KEY_RSA, [AUTH_RULE_OTHER 3])])
     (ex_this [] True True)
     [PLV2_AUTH \<lparr>auth_method = AUTH_DS,
        data = 0x0f # ex_asn1_algorithmIdentifier 2 @ [0x53, 0x49, 0x02, 0x4e, 0x01, 0, 0, 0]\<rparr>]
   = (SUCCESS,
      [Merge [AUTH_RULE_OTHER 2], Add (AUTH_RULE_AUTH_CLASS AUTH_CLASS_PUBKEY),
       Add (AUTH_RULE_IKE_SIGNATURE_SCHEME (ex_plain SIGN_RSA_EMSA_PKCS1_SHA2_256)),
       Add (AUTH_RULE_CERT_VALIDATION_SUSPENDED True)])
   \<and> process
     (ex_lib False None
        [(ex_public KEY_ECDSA, [AUTH_RULE_OTHER 1]), (ex_public KEY_RSA, [AUTH_RULE_OTHER 2]),
         (ex_public KEY_RSA, [AUTH_RULE_OTHER 3])])
     (ex_this [] True False)
     [PLV2_AUTH \<lparr>auth_method = AUTH_DS,
        data = 0x0f # ex_asn1_algorithmIdentifier 2 @ [0x53, 0x49, 0x02, 0x4e, 0x01, 0, 0, 0]\<rparr>]
   = (SUCCESS,
      [Merge [AUTH_RULE_OTHER 2], Add (AUTH_RULE_AUTH_CLASS AUTH_CLASS_PUBKEY),
       Add (AUTH_RULE_IKE_SIGNATURE_SCHEME (ex_plain SIGN_RSA_EMSA_PKCS1_SHA2_256))])"
proof -
  let ?ap = "\<lparr>auth_method = AUTH_DS,
        data = 0x0f # ex_asn1_algorithmIdentifier 2 @ [0x53, 0x49, 0x02, 0x4e, 0x01, 0, 0, 0]\<rparr>"
  let ?msg = "[PLV2_AUTH ?ap]"
  let ?p = "ex_plain SIGN_RSA_EMSA_PKCS1_SHA2_256"
  let ?sig = "[0x53, 0x49, 0x02, 0x4e, 0x01, 0, 0, 0] :: chunk_t"
  let ?pre = "[(ex_public KEY_ECDSA, [AUTH_RULE_OTHER 1])]"
  let ?rest = "[(ex_public KEY_RSA, [AUTH_RULE_OTHER 3])]"
  let ?keys = "?pre @ (ex_public KEY_RSA, [AUTH_RULE_OTHER 2]) # ?rest"
  let ?lib = "ex_lib False None ?keys"
  have g: "get_payload_auth ?msg = Some ?ap" by simp
  have m: "process_auth_method ?lib (auth_method ?ap) (data ?ap) = Inr (KEY_RSA, ?p, ?sig)"
    by (simp add: ex_process_auth_method_ds chunk_skip_def ex_length_rsa_256)
  have o: "get_auth_octets_scheme (ex_this [] True s) True (get_other_id (ike_sa (ex_this [] True s)))
      ?p = Some ([0x49, 0x02, 0x4e, 0x01, 0, 0, 0], ?p)" for s
    by (rule ex_get_auth_octets_scheme)
  have e: "create_public_enumerator ?lib KEY_RSA
      (get_other_id (ike_sa (ex_this [] True s))) (get_auth_cfg (ike_sa (ex_this [] True s)) False)
      (\<not> has_condition (ike_sa (ex_this [] True s)) COND_ONLINE_VALIDATION_SUSPENDED) = ?keys"
    for s
    by (simp add: ex_lib_sel ex_this_sel)
  have f: "\<forall>c\<in>set ?pre. \<not> verify (fst c) (scheme ?p) (params ?p)
      [0x49, 0x02, 0x4e, 0x01, 0, 0, 0] ?sig"
    by (simp add: ex_verify ex_sign_def ex_plain_def)
  have v: "verify (ex_public KEY_RSA) (scheme ?p) (params ?p)
      [0x49, 0x02, 0x4e, 0x01, 0, 0, 0] ?sig"
    by (simp add: ex_verify ex_sign_def ex_plain_def)
  from process_first_valid_key [OF g m o e f v, of True]
  have 1: "process ?lib (ex_this [] True True) ?msg =
      (SUCCESS,
       [Merge [AUTH_RULE_OTHER 2], Add (AUTH_RULE_AUTH_CLASS AUTH_CLASS_PUBKEY),
        Add (AUTH_RULE_IKE_SIGNATURE_SCHEME ?p),
        Add (AUTH_RULE_CERT_VALIDATION_SUSPENDED True)])"
    by (simp add: ex_this_sel)
  from process_first_valid_key [OF g m o e f v, of False]
  have 2: "process ?lib (ex_this [] True False) ?msg =
      (SUCCESS,
       [Merge [AUTH_RULE_OTHER 2], Add (AUTH_RULE_AUTH_CLASS AUTH_CLASS_PUBKEY),
        Add (AUTH_RULE_IKE_SIGNATURE_SCHEME ?p)])"
    by (simp add: ex_this_sel)
  from 1 2 show ?thesis by simp
qed

subsection \<open>No partial state\<close>

lemma build_no_payload:
  "fst (build lib this message) \<noteq> SUCCESS \<Longrightarrow> snd (build lib this message) = message"
  by (auto simp: build_def Let_def split: option.splits sum.splits prod.splits if_splits)

lemma process_no_calls:
  "fst (process lib this message) \<noteq> SUCCESS \<Longrightarrow> snd (process lib this message) = []"
  by (auto simp: process_def Let_def verify_candidates_no_calls
      split: option.splits sum.splits prod.splits)

text \<open>
  Claim C9: unless its result is \<^verbatim>\<open>SUCCESS\<close>, \<^verbatim>\<open>build\<close> leaves the message as it was (no
  AUTH payload is added) and \<^verbatim>\<open>process\<close> makes no call on the session's auth
  configuration (no merge, no auth class, no scheme, no suspended marker). The same
  holds of the two operations of a builder and of a verifier, where the operation of the
  other role is \<^verbatim>\<open>return_failed\<close>.
\<close>

theorem no_partial_state:
  "(fst (build lib this message) \<noteq> SUCCESS \<longrightarrow> snd (build lib this message) = message)
   \<and> (fst (process lib this message) \<noteq> SUCCESS \<longrightarrow> snd (process lib this message) = [])
   \<and> (\<forall>a. a = pubkey_authenticator_create_builder lib sa nce init rsvd \<or>
           a = pubkey_authenticator_create_verifier lib sa nce init rsvd \<longrightarrow>
        (fst (authenticator_build a message) \<noteq> SUCCESS \<longrightarrow>
           snd (authenticator_build a message) = message) \<and>
        (fst (authenticator_process a message) \<noteq> SUCCESS \<longrightarrow>
           snd (authenticator_process a message) = []))"
  by (auto simp: build_no_payload process_no_calls
      pubkey_authenticator_create_builder_def pubkey_authenticator_create_verifier_def)

theorem no_partial_state_witness:
  "build (ex_lib False None []) (ex_this [] True False) [PLV2_OTHER 33]
     = (NOT_FOUND, [PLV2_OTHER 33])
   \<and> process (ex_lib False None []) (ex_this [] True False)
       [PLV2_AUTH \<lparr>auth_method = AUTH_PSK, data = [1, 2, 3]\<rparr>] = (INVALID_ARG, [])
   \<and> authenticator_process
       (pubkey_authenticator_create_builder (ex_lib False None []) (ex_ike_sa [] True False)
          [0x4e, 0x01] [0x49, 0x02] [0, 0, 0])
       [PLV2_AUTH \<lparr>auth_method = AUTH_PSK, data = [1, 2, 3]\<rparr>] = (FAILED, [])"
proof -
  let ?lib = "ex_lib False None []"
  let ?me = "ex_this [] True False"
  let ?msg = "[PLV2_AUTH \<lparr>auth_method = AUTH_PSK, data = [1, 2, 3]\<rparr>]"
  have b: "fst (build ?lib ?me [PLV2_OTHER 33]) = NOT_FOUND"
    by (simp add: build_def ex_this_sel ex_lib_sel)
  have p: "fst (process ?lib ?me ?msg) = INVALID_ARG"
    by (simp add: process_def process_auth_method_def)
  let ?b = "pubkey_authenticator_create_builder ?lib (ex_ike_sa [] True False)
          [0x4e, 0x01] [0x49, 0x02] [0, 0, 0]"
  have a: "fst (authenticator_process ?b ?msg) = FAILED"
    by (simp add: pubkey_authenticator_create_builder_def)
  note t = no_partial_state [of ?lib ?me "[PLV2_OTHER 33]"]
  note t' = no_partial_state
    [of ?lib ?me ?msg "ex_ike_sa [] True False" "[0x4e, 0x01]" "[0x49, 0x02]" "[0, 0, 0]"]
  from t [THEN conjunct1] b have 1: "snd (build ?lib ?me [PLV2_OTHER 33]) = [PLV2_OTHER 33]"
    by simp
  from t' [THEN conjunct2, THEN conjunct1] p have 2: "snd (process ?lib ?me ?msg) = []"
    by simp
  from t' [THEN conjunct2, THEN conjunct2, THEN spec, of ?b] a
  have 3: "snd (authenticator_process ?b ?msg) = []"
    by simp
  from b 1 p 2 a 3 show ?thesis
    by (simp add: prod_eq_iff)
qed

subsection \<open>Payloads that process rejects\<close>

lemma chunk_skip_drop: "chunk_skip chunk bytes = drop bytes chunk"
  by (simp add: chunk_skip_def)

lemma parse_signature_auth_data_None:
  "(parse_signature_auth_data lib d = None) =
     (d = [] \<or>
      signature_scheme_from_oid lib (fst (asn1_parse_algorithmIdentifier lib (tl d)))
        = SIGN_UNKNOWN \<or>
      (signature_scheme_from_oid lib (fst (asn1_parse_algorithmIdentifier lib (tl d)))
         = SIGN_RSA_EMSA_PSS \<and>
       rsa_pss_params_parse lib (snd (asn1_parse_algorithmIdentifier lib (tl d))) = None))"
  by (cases d)
     (auto simp: parse_signature_auth_data_def chunk_skip_drop Let_def split_beta
       split: option.splits)

lemma parse_signature_auth_data_rest:
  "parse_signature_auth_data lib d = Some (rest, kt, p) \<Longrightarrow> rest = drop (1 + unat (hd d)) d"
  by (cases d)
     (auto simp: parse_signature_auth_data_def chunk_skip_drop Let_def split_beta
       split: option.splits if_splits)

text \<open>
  Claim C7 says that \<^verbatim>\<open>process\<close> fails with the unsupported-method error for a method
  outside the recognized set, and with the malformed-payload error for a generic
  signature whose length byte exceeds the data that follows it. The second half does not
  hold: the length byte is never compared with the length of the data. The payload
  below is the length byte \<^verbatim>\<open>0xff\<close> and the 15 bytes of the algorithm identifier of
  sha256WithRSAEncryption; it is decoded as PKCS1-SHA2-256 with an empty signature, and
  \<^verbatim>\<open>process\<close> goes on to the trusted keys and returns \<^verbatim>\<open>FAILED\<close>, not \<^verbatim>\<open>INVALID_ARG\<close>.
\<close>

theorem process_long_length_prefix:
  "length (ex_asn1_algorithmIdentifier 2) < unat (0xff :: 8 word)
   \<and> process_auth_method (ex_lib False None [(ex_public KEY_RSA, [])]) AUTH_DS
        (0xff # ex_asn1_algorithmIdentifier 2)
       = Inr (KEY_RSA, ex_plain SIGN_RSA_EMSA_PKCS1_SHA2_256, [])
   \<and> process (ex_lib False None [(ex_public KEY_RSA, [])]) (ex_this [] True False)
        [PLV2_AUTH \<lparr>auth_method = AUTH_DS, data = 0xff # ex_asn1_algorithmIdentifier 2\<rparr>]
       = (FAILED, [])
   \<and> FAILED \<noteq> INVALID_ARG"
proof -
  have m: "process_auth_method (ex_lib False None [(ex_public KEY_RSA, [])]) AUTH_DS
        (0xff # ex_asn1_algorithmIdentifier 2)
       = Inr (KEY_RSA, ex_plain SIGN_RSA_EMSA_PKCS1_SHA2_256, [])"
    using ex_process_auth_method_ds [of False None "[(ex_public KEY_RSA, [])]" "0xff" "[]"]
    by (simp add: chunk_skip_def ex_length_rsa_256)
  then have "process (ex_lib False None [(ex_public KEY_RSA, [])]) (ex_this [] True False)
        [PLV2_AUTH \<lparr>auth_method = AUTH_DS, data = 0xff # ex_asn1_algorithmIdentifier 2\<rparr>]
       = (FAILED, [])"
    by (simp add: process_def ex_get_auth_octets_scheme ex_this_sel ex_lib_sel ex_verify
        ex_sign_def ex_plain_def)
  with m show ?thesis by (simp add: ex_length_rsa_256)
qed

text \<open>
  Claim C7 as amended: \<^verbatim>\<open>process\<close> fails with \<^verbatim>\<open>INVALID_ARG\<close>, and makes no call on the auth
  configuration, for a method outside the recognized set (logged as unsupported) and for
  a generic signature that does not parse (logged as payload invalid); a generic
  signature does not parse exactly when its data is empty, its algorithm identifier maps
  to no known scheme, or its RSASSA-PSS parameters do not parse. The length byte is not
  checked: what is left as the signature is the data without its first byte and the
  next \<open>len\<close> bytes, which is empty when fewer are there, so decoding stays inside the
  payload data.
\<close>

theorem process_rejects_payload:
  "(mth \<notin> {AUTH_RSA, AUTH_ECDSA_256, AUTH_ECDSA_384, AUTH_ECDSA_521, AUTH_DS} \<longrightarrow>
      process_auth_method lib mth d = Inl ''unsupported'')
   \<and> (parse_signature_auth_data lib d = None \<longrightarrow>
        process_auth_method lib AUTH_DS d = Inl ''payload invalid'')
   \<and> (parse_signature_auth_data lib d = None) =
       (d = [] \<or>
        signature_scheme_from_oid lib (fst (asn1_parse_algorithmIdentifier lib (tl d)))
          = SIGN_UNKNOWN \<or>
        (signature_scheme_from_oid lib (fst (asn1_parse_algorithmIdentifier lib (tl d)))
           = SIGN_RSA_EMSA_PSS \<and>
         rsa_pss_params_parse lib (snd (asn1_parse_algorithmIdentifier lib (tl d))) = None))
   \<and> (\<forall>rest kt p. parse_signature_auth_data lib d = Some (rest, kt, p) \<longrightarrow>
        rest = drop (1 + unat (hd d)) d \<and>
        process_auth_method lib AUTH_DS d = Inr (kt, p, rest))
   \<and> (\<forall>ap r. get_payload_auth message = Some ap \<and>
        process_auth_method lib (auth_method ap) (data ap) = Inl r \<longrightarrow>
        process lib this message = (INVALID_ARG, []))"
proof (intro conjI allI impI)
  assume "mth \<notin> {AUTH_RSA, AUTH_ECDSA_256, AUTH_ECDSA_384, AUTH_ECDSA_521, AUTH_DS}"
  then show "process_auth_method lib mth d = Inl ''unsupported''"
    by (cases mth) (simp_all add: process_auth_method_def)
next
  assume "parse_signature_auth_data lib d = None"
  then show "process_auth_method lib AUTH_DS d = Inl ''payload invalid''"
    by (simp add: process_auth_method_def)
next
  show "(parse_signature_auth_data lib d = None) =
       (d = [] \<or>
        signature_scheme_from_oid lib (fst (asn1_parse_algorithmIdentifier lib (tl d)))
          = SIGN_UNKNOWN \<or>
        (signature_scheme_from_oid lib (fst (asn1_parse_algorithmIdentifier lib (tl d)))
           = SIGN_RSA_EMSA_PSS \<and>
         rsa_pss_params_parse lib (snd (asn1_parse_algorithmIdentifier lib (tl d))) = None))"
    by (rule parse_signature_auth_data_None)
next
  fix rest kt p
  assume "parse_signature_auth_data lib d = Some (rest, kt, p)"
  then show "rest = drop (1 + unat (hd d)) d"
    by (rule parse_signature_auth_data_rest)
next
  fix rest kt p
  assume "parse_signature_auth_data lib d = Some (rest, kt, p)"
  then show "process_auth_method lib AUTH_DS d = Inr (kt, p, rest)"
    by (simp add: process_auth_method_def)
next
  fix ap r
  assume "get_payload_auth message = Some ap \<and>
        process_auth_method lib (auth_method ap) (data ap) = Inl r"
  then show "process lib this message = (INVALID_ARG, [])"
    by (simp add: process_def)
qed

theorem process_rejects_payload_witness:
  "process_auth_method (ex_lib False None []) AUTH_PSK [1, 2, 3] = Inl ''unsupported''
   \<and> process (ex_lib False None []) (ex_this [] True False)
        [PLV2_AUTH \<lparr>auth_method = AUTH_PSK, data = [1, 2, 3]\<rparr>] = (INVALID_ARG, [])
   \<and> process_auth_method (ex_lib False None []) AUTH_DS [] = Inl ''payload invalid''
   \<and> process_auth_method (ex_lib False None []) AUTH_DS [0x03, 0x30, 0x01, 0x00]
       = Inl ''payload invalid''
   \<and> process_auth_method (ex_lib False None []) AUTH_DS
        (0x0f # ex_asn1_algorithmIdentifier 2 @ [0x53, 1])
       = Inr (KEY_RSA, ex_plain SIGN_RSA_EMSA_PKCS1_SHA2_256, [0x53, 1])"
proof -
  let ?lib = "ex_lib False None []"
  let ?me = "ex_this [] True False"
  let ?ap = "\<lparr>auth_method = AUTH_PSK, data = [1, 2, 3]\<rparr>"
  let ?d = "0x0f # ex_asn1_algorithmIdentifier 2 @ [0x53, 1]"
  note t = process_rejects_payload [of AUTH_PSK ?lib "[1, 2, 3]" "[PLV2_AUTH ?ap]" ?me]
  from t [THEN conjunct1]
  have 1: "process_auth_method ?lib AUTH_PSK [1, 2, 3] = Inl ''unsupported''"
    by simp
  have g: "get_payload_auth [PLV2_AUTH ?ap] = Some ?ap" by simp
  from t [THEN conjunct2, THEN conjunct2, THEN conjunct2, THEN conjunct2, THEN spec,
      THEN spec, of ?ap "''unsupported''"] g 1
  have 2: "process ?lib ?me [PLV2_AUTH ?ap] = (INVALID_ARG, [])"
    by simp
  note t0 = process_rejects_payload [of AUTH_DS ?lib "[]" "[]" ?me]
  from t0 [THEN conjunct2, THEN conjunct2, THEN conjunct1]
  have "parse_signature_auth_data ?lib [] = None" by simp
  with t0 [THEN conjunct2, THEN conjunct1]
  have 3: "process_auth_method ?lib AUTH_DS [] = Inl ''payload invalid''"
    by (rule mp)
  note t1 = process_rejects_payload [of AUTH_DS ?lib "[0x03, 0x30, 0x01, 0x00]" "[]" ?me]
  from t1 [THEN conjunct2, THEN conjunct2, THEN conjunct1]
  have "parse_signature_auth_data ?lib [0x03, 0x30, 0x01, 0x00] = None"
    by (simp add: ex_lib_sel ex_asn1_parse_algorithmIdentifier_def
        ex_signature_scheme_from_oid_def OID_UNKNOWN_def)
  with t1 [THEN conjunct2, THEN conjunct1]
  have 4: "process_auth_method ?lib AUTH_DS [0x03, 0x30, 0x01, 0x00] = Inl ''payload invalid''"
    by (rule mp)
  note t2 = process_rejects_payload [of AUTH_DS ?lib ?d "[]" ?me]
  have "parse_signature_auth_data ?lib ?d =
      Some ([0x53, 1], KEY_RSA, ex_plain SIGN_RSA_EMSA_PKCS1_SHA2_256)"
    by (simp add: parse_signature_auth_data_def chunk_skip_drop ex_lib_sel ex_parse_rsa_256
        ex_signature_scheme_from_oid_def ex_plain_def ex_length_rsa_256)
  with t2 [THEN conjunct2, THEN conjunct2, THEN conjunct2, THEN conjunct1, THEN spec,
      THEN spec, THEN spec, of "[0x53, 1]" KEY_RSA "ex_plain SIGN_RSA_EMSA_PKCS1_SHA2_256"]
  have 5: "process_auth_method ?lib AUTH_DS ?d =
      Inr (KEY_RSA, ex_plain SIGN_RSA_EMSA_PKCS1_SHA2_256, [0x53, 1])"
    by blast
  from 1 2 3 4 5 show ?thesis by (intro conjI)
qed

end
